theory Spec2Isabelle
  imports Main
begin

section \<open>Strings of UTF-16 code units\<close>

text \<open>
  The application is a single TypeScript module, \<^verbatim>\<open>Photo1/app/(tabs)/index.tsx\<close>.
  A JavaScript string is a sequence of UTF-16 code units, and a regular expression
  without the \<^verbatim>\<open>u\<close> flag works on code units, so a string is modelled as a list of
  code units. ASCII literals of the source are written through \<open>asc\<close>; the localized
  phrases of the translation tables are given by their code units (all of them lie in
  the Basic Multilingual Plane, one unit per character).
\<close>

type_synonym jstring = "nat list"

definition asc :: "string \<Rightarrow> jstring" where
  "asc s = map of_char s"

text \<open>\<^verbatim>\<open>\d\<close> of a JavaScript regular expression: the ten ASCII digits.\<close>

definition isDigit :: "nat \<Rightarrow> bool" where
  "isDigit c = (0x30 \<le> c \<and> c \<le> 0x39)"

text \<open>
  \<^verbatim>\<open>\s\<close>, and the characters removed by \<^verbatim>\<open>String.prototype.trim\<close>: the
  ECMAScript WhiteSpace and LineTerminator code units.
\<close>

definition isSpace :: "nat \<Rightarrow> bool" where
  "isSpace c = (c = 0x9 \<or> c = 0xA \<or> c = 0xB \<or> c = 0xC \<or> c = 0xD \<or> c = 0x20 \<or> c = 0xA0
     \<or> c = 0x1680 \<or> (0x2000 \<le> c \<and> c \<le> 0x200A) \<or> c = 0x2028 \<or> c = 0x2029
     \<or> c = 0x202F \<or> c = 0x205F \<or> c = 0x3000 \<or> c = 0xFEFF)"

definition isAsciiLetter :: "nat \<Rightarrow> bool" where
  "isAsciiLetter c = ((0x41 \<le> c \<and> c \<le> 0x5A) \<or> (0x61 \<le> c \<and> c \<le> 0x7A))"

text \<open>
  Case-insensitive comparison of the \<^verbatim>\<open>i\<close> flag. Without the \<^verbatim>\<open>u\<close> flag the
  engine compares the canonical forms of the two code units: the upper-case form, except
  that a code unit above 127 is never mapped to one below 128. Every pattern of the
  source is ASCII, so only the canonical form of ASCII letters matters: a code unit above
  127 has a canonical form above 127 and never equals a pattern character, whatever its
  own upper-case form is. \<open>canon\<close> therefore folds the ASCII letters and leaves every
  other unit as it is.
\<close>

definition canon :: "nat \<Rightarrow> nat" where
  "canon c = (if 0x61 \<le> c \<and> c \<le> 0x7A then c - 0x20 else c)"

text \<open>
  \<^verbatim>\<open>String.prototype.toLowerCase\<close>. The ASCII capitals are mapped to small letters;
  U+0130 and U+212A are the two units above 127 whose lower-case form contains an ASCII
  letter (\<open>i\<close> and \<open>k\<close>). The lower-case form of any other unit above 127 consists of
  units above 127; it is not tabulated here and the unit is kept, which gives the same
  answer to every search for an ASCII needle.
\<close>

definition lowerUnit :: "nat \<Rightarrow> jstring" where
  "lowerUnit c = (if 0x41 \<le> c \<and> c \<le> 0x5A then [c + 0x20]
     else if c = 0x130 then [0x69, 0x307]
     else if c = 0x212A then [0x6B]
     else [c])"

definition toLowerCase :: "jstring \<Rightarrow> jstring" where
  "toLowerCase s = concat (map lowerUnit s)"

fun startsWith :: "jstring \<Rightarrow> jstring \<Rightarrow> bool" where
  "startsWith s [] = True"
| "startsWith [] (p # ps) = False"
| "startsWith (c # cs) (p # ps) = (c = p \<and> startsWith cs ps)"

text \<open>\<^verbatim>\<open>String.prototype.includes\<close>: the needle occurs at some position.\<close>

fun includesStr :: "jstring \<Rightarrow> jstring \<Rightarrow> bool" where
  "includesStr [] needle = (needle = [])"
| "includesStr (c # cs) needle = (startsWith (c # cs) needle \<or> includesStr cs needle)"

definition trim :: "jstring \<Rightarrow> jstring" where
  "trim s = rev (dropWhile isSpace (rev (dropWhile isSpace s)))"

section \<open>The regular expressions of the source\<close>

text \<open>
  A regular expression is modelled by its matcher at one position: given the input from
  that position on, the matcher returns the text that replaces the match and the input
  left after the match, or \<open>None\<close> when the expression does not match there. Each
  expression of the source is greedy and needs no backtracking: where a greedy
  repetition is followed by a required character, that character is outside the
  repeated class, so giving back characters can never turn a failure into a match.
\<close>

type_synonym matcher = "jstring \<Rightarrow> (jstring \<times> jstring) option"

text \<open>A literal pattern under the \<^verbatim>\<open>i\<close> flag; the result is the input after the match.\<close>

fun matchLit :: "jstring \<Rightarrow> jstring \<Rightarrow> jstring option" where
  "matchLit [] s = Some s"
| "matchLit (p # ps) [] = None"
| "matchLit (p # ps) (c # cs) = (if canon p = canon c then matchLit ps cs else None)"

text \<open>\<^verbatim>\<open>\d+\<close>\<close>

definition digits1 :: "jstring \<Rightarrow> jstring option" where
  "digits1 s = (case s of [] \<Rightarrow> None
     | c # cs \<Rightarrow> if isDigit c then Some (dropWhile isDigit cs) else None)"

text \<open>One required character.\<close>

definition expectChar :: "nat \<Rightarrow> jstring \<Rightarrow> jstring option" where
  "expectChar x s = (case s of [] \<Rightarrow> None | c # cs \<Rightarrow> if c = x then Some cs else None)"

text \<open>One optional character, taken when present (\<^verbatim>\<open>s?\<close>, \<^verbatim>\<open>:?\<close>, \<^verbatim>\<open>\n?\<close>).\<close>

definition optChar :: "(nat \<Rightarrow> bool) \<Rightarrow> jstring \<Rightarrow> jstring" where
  "optChar P s = (case s of [] \<Rightarrow> [] | c # cs \<Rightarrow> if P c then cs else s)"

text \<open>\<^verbatim>\<open>/Detected \d+ objects?:?\n?/i\<close>\<close>

definition reHeader :: "jstring \<Rightarrow> jstring option" where
  "reHeader s =
     Option.bind (matchLit (asc ''Detected '') s) (\<lambda>r1.
     Option.bind (digits1 r1) (\<lambda>r2.
     Option.bind (matchLit (asc '' object'') r2) (\<lambda>r3.
       Some (optChar (\<lambda>c. c = 0xA) (optChar (\<lambda>c. c = 0x3A) (optChar (\<lambda>c. canon c = 0x53) r3))))))"

text \<open>\<^verbatim>\<open>/\d+\.\s*/\<close>\<close>

definition reNumbering :: "jstring \<Rightarrow> jstring option" where
  "reNumbering s =
     Option.bind (digits1 s) (\<lambda>r1.
     Option.bind (expectChar 0x2E r1) (\<lambda>r2.
       Some (dropWhile isSpace r2)))"

text \<open>\<^verbatim>\<open>/\s*-\s*\d+\.\d+\s*/\<close>\<close>

definition reConfidence :: "jstring \<Rightarrow> jstring option" where
  "reConfidence s =
     Option.bind (expectChar 0x2D (dropWhile isSpace s)) (\<lambda>r1.
     Option.bind (digits1 (dropWhile isSpace r1)) (\<lambda>r2.
     Option.bind (expectChar 0x2E r2) (\<lambda>r3.
     Option.bind (digits1 r3) (\<lambda>r4.
       Some (dropWhile isSpace r4)))))"

text \<open>
  \<^verbatim>\<open>/\(([^)]+)\)/\<close>: the result is the captured group, which is what the replacement
  \<^verbatim>\<open>'$1'\<close> inserts, and the input after the closing parenthesis.
\<close>

definition reParens :: "matcher" where
  "reParens s = (case s of [] \<Rightarrow> None
     | c # cs \<Rightarrow>
         if c = 0x28 then
           (let body = takeWhile (\<lambda>x. x \<noteq> 0x29) cs; r = dropWhile (\<lambda>x. x \<noteq> 0x29) cs
            in if body = [] then None
               else (case r of [] \<Rightarrow> None | d # r' \<Rightarrow> Some (body, r')))
         else None)"

text \<open>A matcher with a fixed replacement text.\<close>

definition replacing :: "(jstring \<Rightarrow> jstring option) \<Rightarrow> jstring \<Rightarrow> matcher" where
  "replacing re rep s = map_option (\<lambda>rest. (rep, rest)) (re s)"

text \<open>
  \<^verbatim>\<open>String.prototype.replace\<close> with an expression without the \<^verbatim>\<open>g\<close> flag: the
  leftmost match is replaced, the rest of the string is kept.
\<close>

fun replaceFirst :: "matcher \<Rightarrow> jstring \<Rightarrow> jstring" where
  "replaceFirst m [] = (case m [] of None \<Rightarrow> [] | Some (rep, rest) \<Rightarrow> rep @ rest)"
| "replaceFirst m (c # cs) =
     (case m (c # cs) of None \<Rightarrow> c # replaceFirst m cs | Some (rep, rest) \<Rightarrow> rep @ rest)"

text \<open>
  \<^verbatim>\<open>String.prototype.replace\<close> with the \<^verbatim>\<open>g\<close> flag: the input is scanned from left
  to right; a match is replaced and the scan goes on after it; where there is no match
  the character is kept. After an empty match the engine keeps one character and goes
  on behind it.
\<close>

fun replaceAll :: "matcher \<Rightarrow> jstring \<Rightarrow> jstring" where
  "replaceAll m s =
     (case m s of
        None \<Rightarrow> (case s of [] \<Rightarrow> [] | c # cs \<Rightarrow> c # replaceAll m cs)
      | Some (rep, rest) \<Rightarrow>
          if length rest < length s then rep @ replaceAll m rest
          else (case s of [] \<Rightarrow> rep | c # cs \<Rightarrow> rep @ c # replaceAll m cs))"

declare replaceAll.simps [simp del]

section \<open>The language catalog\<close>

record Language =
  code :: jstring
  name :: jstring
  voice :: jstring

definition LANGUAGES :: "Language list" where
  "LANGUAGES = [
     \<lparr>code = asc ''english'', name = asc ''English'', voice = asc ''en-US''\<rparr>,
     \<lparr>code = asc ''hindi'', name = asc ''Hindi'', voice = asc ''hi-IN''\<rparr>,
     \<lparr>code = asc ''bengali'', name = asc ''Bengali'', voice = asc ''bn-IN''\<rparr>,
     \<lparr>code = asc ''telugu'', name = asc ''Telugu'', voice = asc ''te-IN''\<rparr>,
     \<lparr>code = asc ''tamil'', name = asc ''Tamil'', voice = asc ''ta-IN''\<rparr>,
     \<lparr>code = asc ''malayalam'', name = asc ''Malayalam'', voice = asc ''ml-IN''\<rparr>]"

section \<open>Hazard text: detection, cleaning, translation\<close>

text \<open>\<^verbatim>\<open>hasHazardousObjects\<close>; \<open>None\<close> is \<^verbatim>\<open>null\<close>, and the empty string is falsy too.\<close>

definition hasHazardousObjects :: "jstring option \<Rightarrow> bool" where
  "hasHazardousObjects hazardInfo = (case hazardInfo of None \<Rightarrow> False
     | Some h \<Rightarrow>
         if h = [] then False
         else (let lowerHazard = toLowerCase h
               in includesStr lowerHazard (asc ''detected'')
                  \<and> \<not> includesStr lowerHazard (asc ''no objects detected'')))"

text \<open>
  The clean-up of the hazard text inside \<^verbatim>\<open>speakCurrentDescription\<close>: four
  replacements, \<^verbatim>\<open>trim\<close>, and the fixed sentence when nothing is left.
\<close>

definition cleanHazardText :: "jstring option \<Rightarrow> jstring" where
  "cleanHazardText hazardInfo =
     (let hazardText = (case hazardInfo of None \<Rightarrow> [] | Some h \<Rightarrow> h);
          hazardText = replaceFirst (replacing reHeader (asc ''Safety alert: '')) hazardText;
          hazardText = replaceAll (replacing reNumbering []) hazardText;
          hazardText = replaceAll (replacing reConfidence []) hazardText;
          hazardText = replaceAll reParens hazardText;
          hazardText = trim hazardText
      in if hazardText = [] then asc ''Safety alert: Hazardous objects detected in the image''
         else hazardText)"

text \<open>
  The phrase tables of \<^verbatim>\<open>translateHazardInfo\<close> (the object \<^verbatim>\<open>translations\<close>), one
  association list per language, in the order of the source.
\<close>

definition hindi_translations :: "(jstring \<times> jstring) list" where
  "hindi_translations = [
     (asc ''Safety alert'',
      [0x938, 0x941, 0x930, 0x915, 0x94D, 0x937, 0x93E, 0x20, 0x91A, 0x947, 0x924, 0x93E, 0x935, 0x928, 0x940]),
     (asc ''No hazardous objects present in the image'',
      [0x91B, 0x935, 0x93F, 0x20, 0x92E, 0x947, 0x902, 0x20, 0x915, 0x94B, 0x908, 0x20, 0x916, 0x924, 0x930, 0x928, 0x93E, 0x915, 0x20, 0x935, 0x938, 0x94D, 0x924, 0x941, 0x20, 0x92E, 0x94C, 0x91C, 0x942, 0x926, 0x20, 0x928, 0x939, 0x940, 0x902, 0x20, 0x939, 0x948]),
     (asc ''detected'',
      [0x915, 0x93E, 0x20, 0x92A, 0x924, 0x93E, 0x20, 0x932, 0x917, 0x93E, 0x92F, 0x93E, 0x20, 0x917, 0x92F, 0x93E]),
     (asc ''close'',
      [0x92A, 0x93E, 0x938]),
     (asc ''very close'',
      [0x92C, 0x939, 0x941, 0x924, 0x20, 0x92A, 0x93E, 0x938]),
     (asc ''medium distance'',
      [0x92E, 0x927, 0x94D, 0x92F, 0x92E, 0x20, 0x926, 0x942, 0x930, 0x940]),
     (asc ''far'',
      [0x926, 0x942, 0x930]),
     (asc ''left'',
      [0x92C, 0x93E, 0x90F, 0x902]),
     (asc ''center'',
      [0x915, 0x947, 0x902, 0x926, 0x94D, 0x930]),
     (asc ''right'',
      [0x926, 0x93E, 0x90F, 0x902]),
     (asc ''Scissors'',
      [0x915, 0x948, 0x902, 0x91A, 0x940]),
     (asc ''Knife'',
      [0x91A, 0x93E, 0x915, 0x942])]"

definition bengali_translations :: "(jstring \<times> jstring) list" where
  "bengali_translations = [
     (asc ''Safety alert'',
      [0x9A8, 0x9BF, 0x9B0, 0x9BE, 0x9AA, 0x9A4, 0x9CD, 0x9A4, 0x9BE, 0x20, 0x9B8, 0x9A4, 0x9B0, 0x9CD, 0x995, 0x9A4, 0x9BE]),
     (asc ''No hazardous objects present in the image'',
      [0x99B, 0x9AC, 0x9BF, 0x9A4, 0x9C7, 0x20, 0x995, 0x9CB, 0x9A8, 0x9CB, 0x20, 0x9AC, 0x9BF, 0x9AA, 0x99C, 0x9CD, 0x99C, 0x9A8, 0x995, 0x20, 0x9AC, 0x9B8, 0x9CD, 0x9A4, 0x9C1, 0x20, 0x9A8, 0x9C7, 0x987]),
     (asc ''detected'',
      [0x9B8, 0x9A8, 0x9BE, 0x995, 0x9CD, 0x9A4, 0x20, 0x995, 0x9B0, 0x9BE, 0x20, 0x9B9, 0x9AF, 0x9BC, 0x9C7, 0x99B, 0x9C7]),
     (asc ''close'',
      [0x995, 0x9BE, 0x99B, 0x9C7]),
     (asc ''very close'',
      [0x996, 0x9C1, 0x9AC, 0x20, 0x995, 0x9BE, 0x99B, 0x9C7]),
     (asc ''medium distance'',
      [0x9AE, 0x9BE, 0x99D, 0x9BE, 0x9B0, 0x9BF, 0x20, 0x9A6, 0x9C2, 0x9B0, 0x9A4, 0x9CD, 0x9AC]),
     (asc ''far'',
      [0x9A6, 0x9C2, 0x9B0, 0x9C7]),
     (asc ''left'',
      [0x9AC, 0x9BE, 0x9AE]),
     (asc ''center'',
      [0x995, 0x9C7, 0x9A8, 0x9CD, 0x9A6, 0x9CD, 0x9B0]),
     (asc ''right'',
      [0x9A1, 0x9BE, 0x9A8]),
     (asc ''Scissors'',
      [0x995, 0x9BE, 0x981, 0x99A, 0x9BF]),
     (asc ''Knife'',
      [0x99B, 0x9C1, 0x9B0, 0x9BF])]"

definition telugu_translations :: "(jstring \<times> jstring) list" where
  "telugu_translations = [
     (asc ''Safety alert'',
      [0xC2D, 0xC26, 0xC4D, 0xC30, 0xC24, 0xC3E, 0x20, 0xC39, 0xC46, 0xC1A, 0xC4D, 0xC1A, 0xC30, 0xC3F, 0xC15]),
     (asc ''No hazardous objects present in the image'',
      [0xC1A, 0xC3F, 0xC24, 0xC4D, 0xC30, 0xC02, 0xC32, 0xC4B, 0x20, 0xC2A, 0xC4D, 0xC30, 0xC2E, 0xC3E, 0xC26, 0xC15, 0xC30, 0xC2E, 0xC48, 0xC28, 0x20, 0xC35, 0xC38, 0xC4D, 0xC24, 0xC41, 0xC35, 0xC41, 0xC32, 0xC41, 0x20, 0xC32, 0xC47, 0xC35, 0xC41]),
     (asc ''detected'',
      [0xC17, 0xC41, 0xC30, 0xC4D, 0xC24, 0xC3F, 0xC02, 0xC1A, 0xC2C, 0xC21, 0xC3F, 0xC02, 0xC26, 0xC3F]),
     (asc ''close'',
      [0xC26, 0xC17, 0xC4D, 0xC17, 0xC30, 0xC17, 0xC3E]),
     (asc ''very close'',
      [0xC1A, 0xC3E, 0xC32, 0xC3E, 0x20, 0xC26, 0xC17, 0xC4D, 0xC17, 0xC30, 0xC17, 0xC3E]),
     (asc ''medium distance'',
      [0xC2E, 0xC27, 0xC4D, 0xC2F, 0x20, 0xC26, 0xC42, 0xC30, 0xC02]),
     (asc ''far'',
      [0xC26, 0xC42, 0xC30, 0xC02, 0xC17, 0xC3E]),
     (asc ''left'',
      [0xC0E, 0xC21, 0xC2E]),
     (asc ''center'',
      [0xC2E, 0xC27, 0xC4D, 0xC2F]),
     (asc ''right'',
      [0xC15, 0xC41, 0xC21, 0xC3F]),
     (asc ''Scissors'',
      [0xC15, 0xC24, 0xC4D, 0xC24, 0xC46, 0xC30]),
     (asc ''Knife'',
      [0xC15, 0xC24, 0xC4D, 0xC24, 0xC3F])]"

definition tamil_translations :: "(jstring \<times> jstring) list" where
  "tamil_translations = [
     (asc ''Safety alert'',
      [0xBAA, 0xBBE, 0xBA4, 0xBC1, 0xB95, 0xBBE, 0xBAA, 0xBCD, 0xBAA, 0xBC1, 0x20, 0xB8E, 0xB9A, 0xBCD, 0xB9A, 0xBB0, 0xBBF, 0xB95, 0xBCD, 0xB95, 0xBC8]),
     (asc ''No hazardous objects present in the image'',
      [0xBAA, 0xB9F, 0xBA4, 0xBCD, 0xBA4, 0xBBF, 0xBB2, 0xBCD, 0x20, 0xB86, 0xBAA, 0xBA4, 0xBCD, 0xBA4, 0xBBE, 0xBA9, 0x20, 0xBAA, 0xBCA, 0xBB0, 0xBC1, 0xBB3, 0xBCD, 0xB95, 0xBB3, 0xBCD, 0x20, 0xB8E, 0xBA4, 0xBC1, 0xBB5, 0xBC1, 0xBAE, 0xBCD, 0x20, 0xB87, 0xBB2, 0xBCD, 0xBB2, 0xBC8]),
     (asc ''detected'',
      [0xB95, 0xBA3, 0xBCD, 0xB9F, 0xBB1, 0xBBF, 0xBAF, 0xBAA, 0xBCD, 0xBAA, 0xB9F, 0xBCD, 0xB9F, 0xBA4, 0xBC1]),
     (asc ''close'',
      [0xB85, 0xBB0, 0xBC1, 0xB95, 0xBBF, 0xBB2, 0xBCD]),
     (asc ''very close'',
      [0xBAE, 0xBBF, 0xB95, 0x20, 0xB85, 0xBB0, 0xBC1, 0xB95, 0xBBF, 0xBB2, 0xBCD]),
     (asc ''medium distance'',
      [0xBA8, 0xB9F, 0xBC1, 0xBA4, 0xBCD, 0xBA4, 0xBB0, 0x20, 0xBA4, 0xBC2, 0xBB0, 0xBAE, 0xBCD]),
     (asc ''far'',
      [0xBA4, 0xBCA, 0xBB2, 0xBC8, 0xBB5, 0xBBF, 0xBB2, 0xBCD]),
     (asc ''left'',
      [0xB87, 0xB9F, 0xBA4, 0xBC1]),
     (asc ''center'',
      [0xBAE, 0xBC8, 0xBAF, 0xBAE, 0xBCD]),
     (asc ''right'',
      [0xBB5, 0xBB2, 0xBA4, 0xBC1]),
     (asc ''Scissors'',
      [0xB95, 0xBA4, 0xBCD, 0xBA4, 0xBB0, 0xBBF, 0xB95, 0xBCD, 0xB95, 0xBCB, 0xBB2, 0xBCD]),
     (asc ''Knife'',
      [0xB95, 0xBA4, 0xBCD, 0xBA4, 0xBBF])]"

definition malayalam_translations :: "(jstring \<times> jstring) list" where
  "malayalam_translations = [
     (asc ''Safety alert'',
      [0xD38, 0xD41, 0xD30, 0xD15, 0xD4D, 0xD37, 0xD3E, 0x20, 0xD2E, 0xD41, 0xD28, 0xD4D, 0xD28, 0xD31, 0xD3F, 0xD2F, 0xD3F, 0xD2A, 0xD4D, 0xD2A, 0xD4D]),
     (asc ''No hazardous objects present in the image'',
      [0xD1A, 0xD3F, 0xD24, 0xD4D, 0xD30, 0xD24, 0xD4D, 0xD24, 0xD3F, 0xD7D, 0x20, 0xD05, 0xD2A, 0xD15, 0xD1F, 0xD15, 0xD30, 0xD2E, 0xD3E, 0xD2F, 0x20, 0xD35, 0xD38, 0xD4D, 0xD24, 0xD41, 0xD15, 0xD4D, 0xD15, 0xD7E, 0x20, 0xD07, 0xD32, 0xD4D, 0xD32]),
     (asc ''detected'',
      [0xD15, 0xD23, 0xD4D, 0xD1F, 0xD46, 0xD24, 0xD4D, 0xD24, 0xD3F]),
     (asc ''close'',
      [0xD05, 0xD1F, 0xD41, 0xD24, 0xD4D, 0xD24, 0xD4D]),
     (asc ''very close'',
      [0xD35, 0xD33, 0xD30, 0xD46, 0x20, 0xD05, 0xD1F, 0xD41, 0xD24, 0xD4D, 0xD24, 0xD4D]),
     (asc ''medium distance'',
      [0xD07, 0xD1F, 0xD24, 0xD4D, 0xD24, 0xD30, 0xD02, 0x20, 0xD26, 0xD42, 0xD30, 0xD02]),
     (asc ''far'',
      [0xD26, 0xD42, 0xD30, 0xD46]),
     (asc ''left'',
      [0xD07, 0xD1F, 0xD24, 0xD4D]),
     (asc ''center'',
      [0xD2E, 0xD27, 0xD4D, 0xD2F, 0xD02]),
     (asc ''right'',
      [0xD35, 0xD32, 0xD24, 0xD4D]),
     (asc ''Scissors'',
      [0xD15, 0xD24, 0xD4D, 0xD30, 0xD3F, 0xD15]),
     (asc ''Knife'',
      [0xD15, 0xD24, 0xD4D, 0xD24, 0xD3F])]"

definition translationTable :: "(jstring \<times> (jstring \<times> jstring) list) list" where
  "translationTable = [
     (asc ''hindi'', hindi_translations),
     (asc ''bengali'', bengali_translations),
     (asc ''telugu'', telugu_translations),
     (asc ''tamil'', tamil_translations),
     (asc ''malayalam'', malayalam_translations)]"

text \<open>
  \<^verbatim>\<open>new RegExp(english, 'gi')\<close> for a table key, with its replacement. The keys consist
  of letters and spaces, so each is a literal pattern; no localized phrase contains
  \<^verbatim>\<open>$\<close>, so each replacement is inserted as it is.
\<close>

definition rePhrase :: "jstring \<Rightarrow> jstring \<Rightarrow> matcher" where
  "rePhrase english translated = replacing (matchLit english) translated"

text \<open>
  \<^verbatim>\<open>translateHazardInfo\<close>: \<^verbatim>\<open>Object.entries\<close> lists the entries in the order they
  were written, and each replacement works on the text the previous ones produced.
\<close>

definition translateHazardInfo :: "jstring \<Rightarrow> Language \<Rightarrow> jstring" where
  "translateHazardInfo hazardText targetLanguage =
     (if code targetLanguage = asc ''english'' then hazardText
      else (case map_of translationTable (code targetLanguage) of
              None \<Rightarrow> hazardText
            | Some langTranslations \<Rightarrow>
                foldl (\<lambda>translatedText (english, translated).
                         replaceAll (rePhrase english translated) translatedText)
                      hazardText langTranslations))"

text \<open>
  The safety message spoken in the second phase: the cleaned hazard text when hazardous
  objects were reported, the fixed confirmation otherwise, translated for the language.
\<close>

definition safetyMessage :: "jstring option \<Rightarrow> jstring" where
  "safetyMessage hazardInfo =
     (if hasHazardousObjects hazardInfo then cleanHazardText hazardInfo
      else asc ''No hazardous objects present in the image'')"

definition translatedSafetyMessage :: "jstring option \<Rightarrow> Language \<Rightarrow> jstring" where
  "translatedSafetyMessage hazardInfo lang = translateHazardInfo (safetyMessage hazardInfo) lang"

section \<open>The narration controller\<close>

text \<open>
  The component keeps its state in React state variables and one mutable reference
  (\<^verbatim>\<open>soundRef\<close>). Its commands are asynchronous functions: each \<^verbatim>\<open>await\<close> suspends
  the call until the awaited promise settles, and other commands and callbacks run in
  between. The model is a step function on the application state. A suspended call is a
  task, stored with the place where it waits and the values its closure captured; the
  event \<open>Settle k out\<close> is the platform settling the promise task \<open>k\<close> waits for. Calls
  to the platform (file system, sound, speech synthesis, alert, timer) are recorded in
  the order they are made. The state variables of the camera screen
  (\<^verbatim>\<open>currentScreen\<close>, \<^verbatim>\<open>capturedImage\<close>, \<^verbatim>\<open>isLoading\<close>, \<^verbatim>\<open>hasPlayedAudio\<close>) play no
  part in narration and are left out.
\<close>

datatype audioMode = server | tts

record CaptionData =
  caption_text :: jstring
  audio_base64 :: "jstring option"

datatype outcome = Resolved | Rejected

datatype phase = Description | Safety

text \<open>
  Platform calls. A temporary file
  \<^verbatim>\<open>${FileSystem.documentDirectory}temp_audio_${Date.now()}.mp3\<close> is named by its time
  stamp; a sound object by a number. \<open>SpeechSpeak\<close> carries the task that speaks and the
  phase it speaks for, then the text and the voice.
\<close>

datatype effect =
    UnloadAsync nat
  | SpeechStop
  | WriteAsStringAsync nat jstring
  | CreateAsync nat
  | DeleteAsync nat
  | SetTimeout nat
  | SpeechSpeak nat phase jstring jstring
  | AlertAlert jstring jstring

text \<open>
  The places where \<^verbatim>\<open>speakCurrentDescription\<close> waits: inside \<^verbatim>\<open>playServerAudio\<close> for
  \<^verbatim>\<open>unloadAsync\<close>, \<^verbatim>\<open>writeAsStringAsync\<close>, \<^verbatim>\<open>Audio.Sound.createAsync\<close> and the end of
  playback; for the speech synthesizer (as the fallback after rendered audio failed, or
  as the first choice); for the one-second timer; for the synthesizer speaking the
  safety message.
\<close>

datatype point =
    AwaitUnload
  | AwaitWrite nat
  | AwaitCreate nat
  | AwaitPlayback nat
  | AwaitFallbackTTS
  | AwaitTTS
  | AwaitPause
  | AwaitSafetyTTS

text \<open>
  A suspended call: a narration with the caption, language and hazard text its closure
  holds, or the stop branch of \<^verbatim>\<open>speakCurrentDescription\<close> or \<^verbatim>\<open>changeLanguage\<close>
  waiting for \<^verbatim>\<open>unloadAsync\<close>.
\<close>

datatype task =
    Narration point CaptionData Language "jstring option"
  | Stopping
  | ChangingLanguage

record app =
  currentLanguageIndex :: nat
  isPlaying :: bool
  captions :: "jstring \<rightharpoonup> CaptionData"
  hazardInfo :: "jstring option"
  audioMode :: audioMode
  isPlayingDescription :: bool
  isPlayingHazard :: bool
  soundRef :: "nat option"
  files :: "nat list"
  now :: nat
  tasks :: "nat \<rightharpoonup> task"
  nextId :: nat
  effects :: "effect list"

text \<open>The state after the component is mounted and an analysis result has arrived.\<close>

definition initialApp :: "(jstring \<rightharpoonup> CaptionData) \<Rightarrow> jstring option \<Rightarrow> app" where
  "initialApp cs h = \<lparr>currentLanguageIndex = 0, isPlaying = False, captions = cs,
     hazardInfo = h, audioMode = server, isPlayingDescription = False,
     isPlayingHazard = False, soundRef = None, files = [], now = 0, tasks = Map.empty,
     nextId = 0, effects = []\<rparr>"

text \<open>
  \<^verbatim>\<open>LANGUAGES[currentLanguageIndex]\<close>; outside the catalog the value is
  \<^verbatim>\<open>undefined\<close>, and reading its \<^verbatim>\<open>code\<close> throws.
\<close>

definition currentLanguage :: "app \<Rightarrow> Language option" where
  "currentLanguage w =
     (if currentLanguageIndex w < length LANGUAGES then Some (LANGUAGES ! currentLanguageIndex w)
      else None)"

definition emit :: "effect \<Rightarrow> app \<Rightarrow> app" where
  "emit e w = w\<lparr>effects := effects w @ [e]\<rparr>"

definition suspend :: "nat \<Rightarrow> task \<Rightarrow> app \<Rightarrow> app" where
  "suspend k t w = w\<lparr>tasks := (tasks w)(k \<mapsto> t)\<rparr>"

text \<open>
  \<^verbatim>\<open>setIsPlaying(false); setIsPlayingDescription(false); setIsPlayingHazard(false)\<close>
\<close>

definition resetPlaying :: "app \<Rightarrow> app" where
  "resetPlaying w = w\<lparr>isPlaying := False, isPlayingDescription := False, isPlayingHazard := False\<rparr>"

text \<open>
  \<^verbatim>\<open>playTTSAudio\<close>: \<^verbatim>\<open>Speech.speak\<close> is called at once; the promise is resolved by
  \<^verbatim>\<open>onDone\<close> and rejected by \<^verbatim>\<open>onError\<close>.
\<close>

definition playTTSAudio :: "nat \<Rightarrow> phase \<Rightarrow> jstring \<Rightarrow> Language \<Rightarrow> app \<Rightarrow> app" where
  "playTTSAudio k ph txt lang w = emit (SpeechSpeak k ph txt (voice lang)) w"

text \<open>\<^verbatim>\<open>audioBase64.replace(/^data:audio\/mp3;base64,/, '')\<close>\<close>

definition stripDataUrl :: "jstring \<Rightarrow> jstring" where
  "stripDataUrl a =
     (if startsWith a (asc ''data:audio/mp3;base64,'')
      then drop (length (asc ''data:audio/mp3;base64,'')) a else a)"

text \<open>
  \<^verbatim>\<open>playServerAudio\<close> from the computation of the file name on: the file is named by
  the current time and the write is started.
\<close>

definition writeAudio :: "nat \<Rightarrow> CaptionData \<Rightarrow> Language \<Rightarrow> jstring option \<Rightarrow> app \<Rightarrow> app" where
  "writeAudio k cap lang h w =
     suspend k (Narration (AwaitWrite (now w)) cap lang h)
       (emit (WriteAsStringAsync (now w)
                (stripDataUrl (case audio_base64 cap of None \<Rightarrow> [] | Some a \<Rightarrow> a))) w)"

text \<open>\<^verbatim>\<open>playServerAudio\<close>: a sound that is still loaded is unloaded first.\<close>

definition playServerAudio :: "nat \<Rightarrow> CaptionData \<Rightarrow> Language \<Rightarrow> jstring option \<Rightarrow> app \<Rightarrow> app" where
  "playServerAudio k cap lang h w =
     (case soundRef w of
        Some s \<Rightarrow> suspend k (Narration AwaitUnload cap lang h) (emit (UnloadAsync s) w)
      | None \<Rightarrow> writeAudio k cap lang h w)"

text \<open>
  The inner \<^verbatim>\<open>catch\<close> of \<^verbatim>\<open>speakCurrentDescription\<close>: whatever \<^verbatim>\<open>playServerAudio\<close>
  threw, the caption text is handed to the synthesizer.
\<close>

definition fallbackToTTS :: "nat \<Rightarrow> CaptionData \<Rightarrow> Language \<Rightarrow> jstring option \<Rightarrow> app \<Rightarrow> app" where
  "fallbackToTTS k cap lang h w =
     suspend k (Narration AwaitFallbackTTS cap lang h)
       (playTTSAudio k Description (caption_text cap) lang w)"

text \<open>The outer \<^verbatim>\<open>catch\<close> and \<^verbatim>\<open>finally\<close>.\<close>

definition audioError :: "app \<Rightarrow> app" where
  "audioError w =
     resetPlaying (emit (AlertAlert (asc ''Audio Error'')
       (asc ''Unable to play audio. Please check your device settings.'')) w)"

text \<open>After the description has been played: the flag is cleared and the timer started.\<close>

definition afterDescription :: "nat \<Rightarrow> CaptionData \<Rightarrow> Language \<Rightarrow> jstring option \<Rightarrow> app \<Rightarrow> app" where
  "afterDescription k cap lang h w =
     suspend k (Narration AwaitPause cap lang h)
       (emit (SetTimeout 1000) (w\<lparr>isPlayingDescription := False\<rparr>))"

text \<open>
  After the pause: the safety message is computed from the hazard text the closure
  holds, translated and spoken.
\<close>

definition speakSafety :: "nat \<Rightarrow> CaptionData \<Rightarrow> Language \<Rightarrow> jstring option \<Rightarrow> app \<Rightarrow> app" where
  "speakSafety k cap lang h w =
     (let w1 = w\<lparr>isPlayingHazard := True\<rparr>; msg = safetyMessage h
      in if msg = [] then resetPlaying (w1\<lparr>isPlayingHazard := False\<rparr>)
         else suspend k (Narration AwaitSafetyTTS cap lang h)
                (playTTSAudio k Safety (translateHazardInfo msg lang) lang w1))"

text \<open>\<^verbatim>\<open>(prev) => (prev + 1) % LANGUAGES.length\<close>\<close>

definition nextLanguageIndex :: "nat \<Rightarrow> nat" where
  "nextLanguageIndex prev = (prev + 1) mod length LANGUAGES"

text \<open>\<^verbatim>\<open>changeLanguage\<close> after the sound, if any, has been unloaded.\<close>

definition changeLanguageFinish :: "app \<Rightarrow> app" where
  "changeLanguageFinish w =
     (resetPlaying (emit SpeechStop w))
       \<lparr>currentLanguageIndex := nextLanguageIndex (currentLanguageIndex w)\<rparr>"

definition changeLanguage :: "app \<Rightarrow> app" where
  "changeLanguage w =
     (case soundRef w of
        Some s \<Rightarrow> (suspend (nextId w) ChangingLanguage (emit (UnloadAsync s) w))
                     \<lparr>nextId := Suc (nextId w)\<rparr>
      | None \<Rightarrow> changeLanguageFinish w)"

definition toggleAudioMode :: "app \<Rightarrow> app" where
  "toggleAudioMode w = w\<lparr>audioMode := (if audioMode w = server then tts else server)\<rparr>"

text \<open>
  \<^verbatim>\<open>speakCurrentDescription\<close> up to its first \<^verbatim>\<open>await\<close>. While \<^verbatim>\<open>isPlaying\<close> holds
  the call stops playback and returns. Otherwise the caption of the current language is
  looked up; without one the alert is shown; with one the flags are set and the
  description is started, from rendered audio when the mode is \<^verbatim>\<open>server\<close> and the
  caption has a non-empty \<^verbatim>\<open>audio_base64\<close>, by synthesis otherwise.
\<close>

definition speakCurrentDescription :: "app \<Rightarrow> app" where
  "speakCurrentDescription w =
     (if isPlaying w then
        (case soundRef w of
           Some s \<Rightarrow> (suspend (nextId w) Stopping (emit (UnloadAsync s) w))
                        \<lparr>nextId := Suc (nextId w)\<rparr>
         | None \<Rightarrow> resetPlaying (emit SpeechStop w))
      else
        (case currentLanguage w of
           None \<Rightarrow> w
         | Some lang \<Rightarrow>
             (case captions w (code lang) of
                None \<Rightarrow> emit (AlertAlert (asc ''No Description'')
                          (asc ''No description available for this language.'')) w
              | Some cap \<Rightarrow>
                  (let k = nextId w;
                       w1 = w\<lparr>isPlaying := True, isPlayingDescription := True, nextId := Suc k\<rparr>
                   in if audioMode w = server \<and> audio_base64 cap \<noteq> None
                           \<and> audio_base64 cap \<noteq> Some []
                      then playServerAudio k cap lang (hazardInfo w) w1
                      else suspend k (Narration AwaitTTS cap lang (hazardInfo w))
                             (playTTSAudio k Description (caption_text cap) lang w1)))))"

text \<open>
  A suspended call goes on when its promise settles. A rejected promise is an exception
  at the \<^verbatim>\<open>await\<close>: inside \<^verbatim>\<open>playServerAudio\<close> it reaches the inner \<^verbatim>\<open>catch\<close>, at a
  synthesizer call the outer one; in the stop branch and in \<^verbatim>\<open>changeLanguage\<close> nothing
  catches it and the call ends there. The promise of the playback is resolved by a
  status with \<^verbatim>\<open>didJustFinish\<close>, after the temporary file is deleted, and rejected by a
  status that reports an error. The timer cannot fail.
\<close>

fun resume :: "nat \<Rightarrow> task \<Rightarrow> outcome \<Rightarrow> app \<Rightarrow> app" where
  "resume k Stopping Resolved w = resetPlaying (emit SpeechStop (w\<lparr>soundRef := None\<rparr>))"
| "resume k Stopping Rejected w = w"
| "resume k ChangingLanguage Resolved w = changeLanguageFinish (w\<lparr>soundRef := None\<rparr>)"
| "resume k ChangingLanguage Rejected w = w"
| "resume k (Narration AwaitUnload cap lang h) Resolved w =
     writeAudio k cap lang h (w\<lparr>soundRef := None\<rparr>)"
| "resume k (Narration (AwaitWrite uri) cap lang h) Resolved w =
     suspend k (Narration (AwaitCreate uri) cap lang h)
       (emit (CreateAsync uri) (w\<lparr>files := List.insert uri (files w)\<rparr>))"
| "resume k (Narration (AwaitCreate uri) cap lang h) Resolved w =
     suspend k (Narration (AwaitPlayback uri) cap lang h)
       (w\<lparr>soundRef := Some (nextId w), nextId := Suc (nextId w)\<rparr>)"
| "resume k (Narration (AwaitPlayback uri) cap lang h) Resolved w =
     afterDescription k cap lang h
       (emit (DeleteAsync uri) (w\<lparr>files := removeAll uri (files w)\<rparr>))"
| "resume k (Narration AwaitFallbackTTS cap lang h) Resolved w = afterDescription k cap lang h w"
| "resume k (Narration AwaitTTS cap lang h) Resolved w = afterDescription k cap lang h w"
| "resume k (Narration AwaitPause cap lang h) Resolved w = speakSafety k cap lang h w"
| "resume k (Narration AwaitSafetyTTS cap lang h) Resolved w =
     resetPlaying (w\<lparr>isPlayingHazard := False\<rparr>)"
| "resume k (Narration AwaitUnload cap lang h) Rejected w = fallbackToTTS k cap lang h w"
| "resume k (Narration (AwaitWrite uri) cap lang h) Rejected w = fallbackToTTS k cap lang h w"
| "resume k (Narration (AwaitCreate uri) cap lang h) Rejected w = fallbackToTTS k cap lang h w"
| "resume k (Narration (AwaitPlayback uri) cap lang h) Rejected w = fallbackToTTS k cap lang h w"
| "resume k (Narration AwaitFallbackTTS cap lang h) Rejected w = audioError w"
| "resume k (Narration AwaitTTS cap lang h) Rejected w = audioError w"
| "resume k (Narration AwaitPause cap lang h) Rejected w =
     suspend k (Narration AwaitPause cap lang h) w"
| "resume k (Narration AwaitSafetyTTS cap lang h) Rejected w = audioError w"

text \<open>
  The events: the speak button (\<^verbatim>\<open>speakDescription\<close>, which calls
  \<^verbatim>\<open>speakCurrentDescription\<close>), the swipe that changes the language, the audio-mode
  button, the settling of a promise, and the passing of a millisecond.
\<close>

datatype event = Press | ChangeLanguage | ToggleAudioMode | Settle nat outcome | Tick

fun step :: "event \<Rightarrow> app \<Rightarrow> app" where
  "step Press w = speakCurrentDescription w"
| "step ChangeLanguage w = changeLanguage w"
| "step ToggleAudioMode w = toggleAudioMode w"
| "step (Settle k out) w =
     (case tasks w k of
        None \<Rightarrow> w
      | Some t \<Rightarrow> resume k t out (w\<lparr>tasks := (tasks w)(k := None)\<rparr>))"
| "step Tick w = w\<lparr>now := Suc (now w)\<rparr>"

definition run :: "event list \<Rightarrow> app \<Rightarrow> app" where
  "run es w = foldl (\<lambda>w e. step e w) w es"

section \<open>Inputs and notions used to state the properties\<close>

text \<open>The first two languages of the catalog.\<close>

definition english :: Language where
  "english = LANGUAGES ! 0"

definition hindi :: Language where
  "hindi = LANGUAGES ! 1"

text \<open>The hazard report of the scenario: a header line and two numbered items.\<close>

definition scenarioReport :: jstring where
  "scenarioReport = asc ''Detected 2 objects:'' @ [0xA]
     @ asc ''1. Knife - 0.91 (close, left)'' @ [0xA]
     @ asc ''2. Scissors - 0.77 (far, right)''"

text \<open>What may be left of a confidence fragment: spaces, dashes and digits.\<close>

definition confidenceResidue :: "jstring \<Rightarrow> bool" where
  "confidenceResidue r = list_all (\<lambda>c. c = 0x20 \<or> c = 0x2D \<or> isDigit c) r"

text \<open>A caption with a rendered-audio payload, and an analysis result that holds it.\<close>

definition demoCaption :: CaptionData where
  "demoCaption = \<lparr>caption_text = asc ''A kitchen table'', audio_base64 = Some (asc ''SUQz'')\<rparr>"

definition demoApp :: app where
  "demoApp = initialApp [asc ''english'' \<mapsto> demoCaption] None"

text \<open>The places of \<^verbatim>\<open>playServerAudio\<close>, where the rendered audio is being played.\<close>

fun renderedPoint :: "point \<Rightarrow> bool" where
  "renderedPoint AwaitUnload = True"
| "renderedPoint (AwaitWrite uri) = True"
| "renderedPoint (AwaitCreate uri) = True"
| "renderedPoint (AwaitPlayback uri) = True"
| "renderedPoint AwaitFallbackTTS = False"
| "renderedPoint AwaitTTS = False"
| "renderedPoint AwaitPause = False"
| "renderedPoint AwaitSafetyTTS = False"

text \<open>The phrase table \<^verbatim>\<open>translateHazardInfo\<close> uses for a language; empty when it has none.\<close>

definition phraseTable :: "Language \<Rightarrow> (jstring \<times> jstring) list" where
  "phraseTable lang =
     (if code lang = asc ''english'' then []
      else (case map_of translationTable (code lang) of None \<Rightarrow> [] | Some t \<Rightarrow> t))"

text \<open>
  The sentence spoken when nothing hazardous was reported, as the table of the language
  renders it as a whole; the English sentence where there is no table.
\<close>

definition noHazardBoilerplate :: "Language \<Rightarrow> jstring" where
  "noHazardBoilerplate lang =
     (case map_of (phraseTable lang) (asc ''No hazardous objects present in the image'') of
        None \<Rightarrow> asc ''No hazardous objects present in the image''
      | Some l \<Rightarrow> l)"

text \<open>
  The phrase \<open>q\<close> occurs in a text, compared as the \<^verbatim>\<open>i\<close> flag compares, at some
  position and without regard to what stands around it.
\<close>

fun occursCI :: "jstring \<Rightarrow> jstring \<Rightarrow> bool" where
  "occursCI q [] = (matchLit q [] \<noteq> None)"
| "occursCI q (c # cs) = (matchLit q (c # cs) \<noteq> None \<or> occursCI q cs)"

text \<open>A text without ASCII letters.\<close>

definition letterFree :: "jstring \<Rightarrow> bool" where
  "letterFree s = list_all (\<lambda>c. \<not> isAsciiLetter c) s"

text \<open>A character that is neither an ASCII letter nor the space: it occurs in no table key.\<close>

definition separator :: "nat \<Rightarrow> bool" where
  "separator c = (\<not> isAsciiLetter c \<and> c \<noteq> 0x20)"

text \<open>A code unit above 127 that is no white space: the material of the localized phrases.\<close>

definition inert :: "nat \<Rightarrow> bool" where
  "inert c = (0x80 \<le> c \<and> \<not> isSpace c)"

text \<open>
  What the proofs need to know about a table entry: the key is made of ASCII letters and
  spaces and begins and ends with a letter; the localized phrase is made of code units
  above 127 and spaces and begins and ends with a code unit above 127.
\<close>

definition wfEntry :: "jstring \<times> jstring \<Rightarrow> bool" where
  "wfEntry e = (case e of (q, l) \<Rightarrow>
     q \<noteq> [] \<and> list_all (\<lambda>p. isAsciiLetter p \<or> p = 0x20) q
     \<and> isAsciiLetter (hd q) \<and> isAsciiLetter (last q)
     \<and> l \<noteq> [] \<and> list_all (\<lambda>c. c = 0x20 \<or> inert c) l \<and> inert (hd l) \<and> inert (last l))"

text \<open>The replacements of \<^verbatim>\<open>translateHazardInfo\<close> for a given table.\<close>

definition applyTable :: "(jstring \<times> jstring) list \<Rightarrow> jstring \<Rightarrow> jstring" where
  "applyTable t s = foldl (\<lambda>translatedText (english, translated).
     replaceAll (rePhrase english translated) translatedText) s t"

text \<open>
  No entry that stands earlier in the table has a key occurring inside the key \<open>e\<close>: the
  entry of \<open>e\<close> still finds its phrase when its turn comes.
\<close>

fun notShadowed :: "(jstring \<times> jstring) list \<Rightarrow> jstring \<Rightarrow> bool" where
  "notShadowed [] e = True"
| "notShadowed ((q, l) # t) e = (q = e \<or> (\<not> occursCI q e \<and> notShadowed t e))"


subsection \<open>Notions about matchers used in the proofs\<close>

text \<open>A matcher that consumes at least one character, and none at the end of the input.\<close>

definition advances :: "matcher \<Rightarrow> bool" where
  "advances m = (m [] = None \<and> (\<forall>s rep rest. m s = Some (rep, rest) \<longrightarrow> length rest < length s))"

text \<open>A matcher that never looks at, nor beyond, the beginning of \<open>z\<close>.\<close>

definition stopsAt :: "matcher \<Rightarrow> jstring \<Rightarrow> bool" where
  "stopsAt m z = (\<forall>x. m (x @ z) = map_option (\<lambda>(rep, r). (rep, r @ z)) (m x))"





section \<open>Properties of the controller\<close>

lemmas ctl_defs = speakCurrentDescription_def playServerAudio_def writeAudio_def
  fallbackToTTS_def audioError_def afterDescription_def speakSafety_def changeLanguage_def
  changeLanguageFinish_def toggleAudioMode_def emit_def suspend_def resetPlaying_def
  playTTSAudio_def

lemma demoApp_language: "currentLanguage demoApp = Some (LANGUAGES ! 0)"
  by (simp add: demoApp_def initialApp_def currentLanguage_def LANGUAGES_def)

lemma asc_english_hindi: "asc ''english'' \<noteq> asc ''hindi''"
  by (simp add: asc_def)

text \<open>
  C8. When the call is made while nothing is playing and the current language has no
  caption, the only thing that happens is the alert "No Description": the flags keep
  their values (the phase stays Idle), no task is created, no file is written, no sound
  is created and nothing is spoken.
\<close>

theorem start_without_caption:
  assumes "\<not> isPlaying w" and "currentLanguage w = Some lang"
    and "captions w (code lang) = None"
  shows "step Press w = w\<lparr>effects := effects w @
           [AlertAlert (asc ''No Description'')
              (asc ''No description available for this language.'')]\<rparr>"
  using assms by (simp add: speakCurrentDescription_def emit_def)

theorem start_without_caption_witness:
  "\<not> isPlaying (initialApp [asc ''hindi'' \<mapsto> demoCaption] None)
   \<and> currentLanguage (initialApp [asc ''hindi'' \<mapsto> demoCaption] None) = Some (LANGUAGES ! 0)
   \<and> captions (initialApp [asc ''hindi'' \<mapsto> demoCaption] None) (code (LANGUAGES ! 0)) = None
   \<and> step Press (initialApp [asc ''hindi'' \<mapsto> demoCaption] None)
       = (initialApp [asc ''hindi'' \<mapsto> demoCaption] None)\<lparr>effects :=
           [AlertAlert (asc ''No Description'')
              (asc ''No description available for this language.'')]\<rparr>"
proof -
  let ?w = "initialApp [asc ''hindi'' \<mapsto> demoCaption] None"
  have h1: "\<not> isPlaying ?w" by (simp add: initialApp_def)
  have h2: "currentLanguage ?w = Some (LANGUAGES ! 0)"
    by (simp add: initialApp_def currentLanguage_def LANGUAGES_def)
  have h3: "captions ?w (code (LANGUAGES ! 0)) = None"
    using asc_english_hindi by (simp add: initialApp_def LANGUAGES_def)
  have h4: "effects ?w = []" by (simp add: initialApp_def)
  from start_without_caption [OF h1 h2 h3] h1 h2 h3 h4 show ?thesis by simp
qed

text \<open>
  C10. When the call is made while \<^verbatim>\<open>isPlaying\<close> holds it starts nothing and reports
  nothing. Without a loaded sound it stops the synthesizer and clears the three flags at
  once. With a loaded sound it asks for the sound to be unloaded and waits; when the
  unloading is done it clears the reference, stops the synthesizer and clears the three
  flags. In both cases no unit is played and no alert is shown.
\<close>

theorem press_while_playing_stops:
  assumes "isPlaying w"
  shows "(soundRef w = None \<longrightarrow>
            step Press w = w\<lparr>isPlaying := False, isPlayingDescription := False,
              isPlayingHazard := False, effects := effects w @ [SpeechStop]\<rparr>)
       \<and> (\<forall>s. soundRef w = Some s \<longrightarrow>
            step Press w = w\<lparr>tasks := (tasks w)(nextId w \<mapsto> Stopping),
              nextId := Suc (nextId w), effects := effects w @ [UnloadAsync s]\<rparr>
          \<and> step (Settle (nextId w) Resolved) (step Press w) =
              w\<lparr>isPlaying := False, isPlayingDescription := False, isPlayingHazard := False,
                soundRef := None, tasks := (tasks w)(nextId w := None),
                nextId := Suc (nextId w), effects := effects w @ [UnloadAsync s, SpeechStop]\<rparr>)"
  using assms by (simp add: ctl_defs)

theorem press_while_playing_stops_witness:
  "isPlaying (step Press demoApp)
   \<and> soundRef (step Press demoApp) = None
   \<and> step Press (step Press demoApp) = (step Press demoApp)\<lparr>isPlaying := False,
        isPlayingDescription := False, isPlayingHazard := False,
        effects := effects (step Press demoApp) @ [SpeechStop]\<rparr>"
proof -
  have h1: "isPlaying (step Press demoApp)"
    using demoApp_language
    by (simp add: ctl_defs Let_def demoApp_def initialApp_def demoCaption_def LANGUAGES_def)
  have h2: "soundRef (step Press demoApp) = None"
    using demoApp_language
    by (simp add: ctl_defs Let_def demoApp_def initialApp_def demoCaption_def LANGUAGES_def)
  from press_while_playing_stops [OF h1] h1 h2 show ?thesis by simp
qed

text \<open>
  C3. Let the mode be \<^verbatim>\<open>server\<close> and the caption carry a non-empty payload. The call
  then starts with the rendered audio and hands nothing to the synthesizer. If the
  rendered audio fails, at whichever of its steps, the caption text is handed to the
  synthesizer: one \<^verbatim>\<open>Speech.speak\<close>, for the same caption. If that fails too, the
  alert "Audio Error" is shown, the flags are cleared and the call is over: nothing
  more is spoken, and later signals for that call change nothing.
\<close>

theorem rendered_failure_one_synthesis_retry:
  assumes "\<not> isPlaying w" and "currentLanguage w = Some lang"
    and "captions w (code lang) = Some cap" and "audioMode w = server"
    and "audio_base64 cap = Some a" and "a \<noteq> []"
  shows "(soundRef w = None \<longrightarrow>
            step Press w = w\<lparr>isPlaying := True, isPlayingDescription := True,
              tasks := (tasks w)(nextId w \<mapsto>
                 Narration (AwaitWrite (now w)) cap lang (hazardInfo w)),
              nextId := Suc (nextId w),
              effects := effects w @ [WriteAsStringAsync (now w) (stripDataUrl a)]\<rparr>)
       \<and> (\<forall>s. soundRef w = Some s \<longrightarrow>
            step Press w = w\<lparr>isPlaying := True, isPlayingDescription := True,
              tasks := (tasks w)(nextId w \<mapsto> Narration AwaitUnload cap lang (hazardInfo w)),
              nextId := Suc (nextId w), effects := effects w @ [UnloadAsync s]\<rparr>)
       \<and> (\<forall>(v::app) k p h. renderedPoint p \<and> tasks v k = Some (Narration p cap lang h) \<longrightarrow>
            step (Settle k Rejected) v =
              v\<lparr>tasks := (tasks v)(k \<mapsto> Narration AwaitFallbackTTS cap lang h),
                effects := effects v @ [SpeechSpeak k Description (caption_text cap) (voice lang)]\<rparr>
          \<and> step (Settle k Rejected) (step (Settle k Rejected) v) =
              v\<lparr>isPlaying := False, isPlayingDescription := False, isPlayingHazard := False,
                tasks := (tasks v)(k := None),
                effects := effects v @ [SpeechSpeak k Description (caption_text cap) (voice lang),
                  AlertAlert (asc ''Audio Error'')
                    (asc ''Unable to play audio. Please check your device settings.'')]\<rparr>
          \<and> (\<forall>out. step (Settle k out) (step (Settle k Rejected) (step (Settle k Rejected) v))
                = step (Settle k Rejected) (step (Settle k Rejected) v)))"
proof (intro conjI allI impI)
  assume "soundRef w = None"
  with assms show "step Press w = w\<lparr>isPlaying := True, isPlayingDescription := True,
              tasks := (tasks w)(nextId w \<mapsto>
                 Narration (AwaitWrite (now w)) cap lang (hazardInfo w)),
              nextId := Suc (nextId w),
              effects := effects w @ [WriteAsStringAsync (now w) (stripDataUrl a)]\<rparr>"
    by (simp add: ctl_defs Let_def)
next
  fix s assume "soundRef w = Some s"
  with assms show "step Press w = w\<lparr>isPlaying := True, isPlayingDescription := True,
              tasks := (tasks w)(nextId w \<mapsto> Narration AwaitUnload cap lang (hazardInfo w)),
              nextId := Suc (nextId w), effects := effects w @ [UnloadAsync s]\<rparr>"
    by (simp add: ctl_defs Let_def)
next
  fix v :: app and k p h assume h: "renderedPoint p \<and> tasks v k = Some (Narration p cap lang h)"
  then show "step (Settle k Rejected) v =
              v\<lparr>tasks := (tasks v)(k \<mapsto> Narration AwaitFallbackTTS cap lang h),
                effects := effects v @ [SpeechSpeak k Description (caption_text cap) (voice lang)]\<rparr>"
    by (cases p) (simp_all add: ctl_defs)
  from h show "step (Settle k Rejected) (step (Settle k Rejected) v) =
              v\<lparr>isPlaying := False, isPlayingDescription := False, isPlayingHazard := False,
                tasks := (tasks v)(k := None),
                effects := effects v @ [SpeechSpeak k Description (caption_text cap) (voice lang),
                  AlertAlert (asc ''Audio Error'')
                    (asc ''Unable to play audio. Please check your device settings.'')]\<rparr>"
    by (cases p) (simp_all add: ctl_defs)
  fix out
  from h show "step (Settle k out) (step (Settle k Rejected) (step (Settle k Rejected) v))
                = step (Settle k Rejected) (step (Settle k Rejected) v)"
    by (cases p) (simp_all add: ctl_defs)
qed

theorem rendered_failure_one_synthesis_retry_witness:
  "\<not> isPlaying demoApp \<and> currentLanguage demoApp = Some (LANGUAGES ! 0)
   \<and> captions demoApp (code (LANGUAGES ! 0)) = Some demoCaption
   \<and> audioMode demoApp = server \<and> audio_base64 demoCaption = Some (asc ''SUQz'')
   \<and> asc ''SUQz'' \<noteq> []
   \<and> renderedPoint (AwaitWrite 0)
   \<and> tasks (step Press demoApp) 0 = Some (Narration (AwaitWrite 0) demoCaption (LANGUAGES ! 0) None)
   \<and> effects (step (Settle 0 Rejected) (step Press demoApp))
       = [WriteAsStringAsync 0 (asc ''SUQz''),
          SpeechSpeak 0 Description (asc ''A kitchen table'') (asc ''en-US'')]
   \<and> effects (step (Settle 0 Rejected) (step (Settle 0 Rejected) (step Press demoApp)))
       = [WriteAsStringAsync 0 (asc ''SUQz''),
          SpeechSpeak 0 Description (asc ''A kitchen table'') (asc ''en-US''),
          AlertAlert (asc ''Audio Error'')
            (asc ''Unable to play audio. Please check your device settings.'')]"
proof -
  have h1: "\<not> isPlaying demoApp" by (simp add: demoApp_def initialApp_def)
  have h2: "currentLanguage demoApp = Some (LANGUAGES ! 0)" by (rule demoApp_language)
  have h3: "captions demoApp (code (LANGUAGES ! 0)) = Some demoCaption"
    by (simp add: demoApp_def initialApp_def LANGUAGES_def)
  have h4: "audioMode demoApp = server" by (simp add: demoApp_def initialApp_def)
  have h5: "audio_base64 demoCaption = Some (asc ''SUQz'')" by (simp add: demoCaption_def)
  have h6: "asc ''SUQz'' \<noteq> []" by (simp add: asc_def)
  have h7: "soundRef demoApp = None" by (simp add: demoApp_def initialApp_def)
  have e0: "effects demoApp = []" "now demoApp = 0" "nextId demoApp = 0" "hazardInfo demoApp = None"
    by (simp_all add: demoApp_def initialApp_def)
  have strip: "stripDataUrl (asc ''SUQz'') = asc ''SUQz''" by (simp add: stripDataUrl_def asc_def)
  have cv: "caption_text demoCaption = asc ''A kitchen table''" "voice (LANGUAGES ! 0) = asc ''en-US''"
    by (simp_all add: demoCaption_def LANGUAGES_def)
  note inst = rendered_failure_one_synthesis_retry [OF h1 h2 h3 h4 h5 h6]
  from inst h7 have p: "step Press demoApp = demoApp\<lparr>isPlaying := True, isPlayingDescription := True,
      tasks := (tasks demoApp)(nextId demoApp \<mapsto>
        Narration (AwaitWrite (now demoApp)) demoCaption (LANGUAGES ! 0) (hazardInfo demoApp)),
      nextId := Suc (nextId demoApp),
      effects := effects demoApp @ [WriteAsStringAsync (now demoApp) (stripDataUrl (asc ''SUQz''))]\<rparr>"
    by blast
  from p e0 have t: "tasks (step Press demoApp) 0
      = Some (Narration (AwaitWrite 0) demoCaption (LANGUAGES ! 0) None)"
    by simp
  from p e0 strip have e1: "effects (step Press demoApp) = [WriteAsStringAsync 0 (asc ''SUQz'')]"
    by simp
  have r: "renderedPoint (AwaitWrite 0)" by simp
  from inst have "\<forall>(v::app) k p h. renderedPoint p \<and> tasks v k = Some (Narration p demoCaption (LANGUAGES ! 0) h) \<longrightarrow>
            step (Settle k Rejected) v =
              v\<lparr>tasks := (tasks v)(k \<mapsto> Narration AwaitFallbackTTS demoCaption (LANGUAGES ! 0) h),
                effects := effects v @ [SpeechSpeak k Description (caption_text demoCaption) (voice (LANGUAGES ! 0))]\<rparr>
          \<and> step (Settle k Rejected) (step (Settle k Rejected) v) =
              v\<lparr>isPlaying := False, isPlayingDescription := False, isPlayingHazard := False,
                tasks := (tasks v)(k := None),
                effects := effects v @ [SpeechSpeak k Description (caption_text demoCaption) (voice (LANGUAGES ! 0)),
                  AlertAlert (asc ''Audio Error'')
                    (asc ''Unable to play audio. Please check your device settings.'')]\<rparr>
          \<and> (\<forall>out. step (Settle k out) (step (Settle k Rejected) (step (Settle k Rejected) v))
                = step (Settle k Rejected) (step (Settle k Rejected) v))"
    by blast
  from this [rule_format, of "AwaitWrite 0" "step Press demoApp" 0 None] r t
  have s1: "step (Settle 0 Rejected) (step Press demoApp) =
              (step Press demoApp)\<lparr>tasks := (tasks (step Press demoApp))(0 \<mapsto> Narration AwaitFallbackTTS demoCaption (LANGUAGES ! 0) None),
                effects := effects (step Press demoApp) @ [SpeechSpeak 0 Description (caption_text demoCaption) (voice (LANGUAGES ! 0))]\<rparr>"
   and s2: "step (Settle 0 Rejected) (step (Settle 0 Rejected) (step Press demoApp)) =
              (step Press demoApp)\<lparr>isPlaying := False, isPlayingDescription := False, isPlayingHazard := False,
                tasks := (tasks (step Press demoApp))(0 := None),
                effects := effects (step Press demoApp) @ [SpeechSpeak 0 Description (caption_text demoCaption) (voice (LANGUAGES ! 0)),
                  AlertAlert (asc ''Audio Error'')
                    (asc ''Unable to play audio. Please check your device settings.'')]\<rparr>"
    by blast+
  from s1 e1 cv have c1: "effects (step (Settle 0 Rejected) (step Press demoApp))
       = [WriteAsStringAsync 0 (asc ''SUQz''),
          SpeechSpeak 0 Description (asc ''A kitchen table'') (asc ''en-US'')]"
    by simp
  from s2 e1 cv have c2: "effects (step (Settle 0 Rejected) (step (Settle 0 Rejected) (step Press demoApp)))
       = [WriteAsStringAsync 0 (asc ''SUQz''),
          SpeechSpeak 0 Description (asc ''A kitchen table'') (asc ''en-US''),
          AlertAlert (asc ''Audio Error'')
            (asc ''Unable to play audio. Please check your device settings.'')]"
    by simp
  from h1 h2 h3 h4 h5 h6 r t c1 c2 show ?thesis by (intro conjI)
qed

lemma idx_resume:
  "currentLanguageIndex (resume k t out w) = currentLanguageIndex w
   \<or> currentLanguageIndex (resume k t out w) = nextLanguageIndex (currentLanguageIndex w)"
  by (cases "(k, t, out, w)" rule: resume.cases) (simp_all add: ctl_defs Let_def)

lemma idx_step:
  "currentLanguageIndex (step e w) = currentLanguageIndex w
   \<or> currentLanguageIndex (step e w) = nextLanguageIndex (currentLanguageIndex w)"
proof (cases e)
  case (Settle k out)
  show ?thesis
  proof (cases "tasks w k")
    case None
    with Settle show ?thesis by simp
  next
    case (Some t)
    with Settle idx_resume [of k t out "w\<lparr>tasks := (tasks w)(k := None)\<rparr>"]
    show ?thesis by simp
  qed
qed (auto simp add: ctl_defs Let_def split: option.splits)

lemma nextLanguageIndex_less: "nextLanguageIndex i < length LANGUAGES"
  by (simp add: nextLanguageIndex_def LANGUAGES_def)

lemma idx_run:
  "currentLanguageIndex w < length LANGUAGES \<Longrightarrow> currentLanguageIndex (run es w) < length LANGUAGES"
proof (induction es arbitrary: w)
  case Nil
  then show ?case by (simp add: run_def)
next
  case (Cons e es)
  from idx_step [of e w] Cons.prems nextLanguageIndex_less
  have "currentLanguageIndex (step e w) < length LANGUAGES" by auto
  from Cons.IH [OF this] show ?case by (simp add: run_def)
qed


text \<open>
  C9. The catalog has the six entries english, hindi, bengali, telugu, tamil, malayalam.
  Advancing takes the index \<open>i\<close> to \<open>(i + 1) mod 6\<close>: five advances from 0 give 5, the
  sixth gives 0, and the result is always below the length of the catalog.
  \<^verbatim>\<open>changeLanguage\<close> advances the index, at once when no sound is loaded and otherwise
  when the sound has been unloaded; whatever events follow, an index inside the catalog
  stays inside.
\<close>

theorem language_advance_cyclic:
  "nextLanguageIndex i = (i + 1) mod 6
   \<and> map code LANGUAGES = [asc ''english'', asc ''hindi'', asc ''bengali'', asc ''telugu'',
        asc ''tamil'', asc ''malayalam'']
   \<and> (nextLanguageIndex ^^ 5) 0 = 5
   \<and> (nextLanguageIndex ^^ 6) 0 = 0
   \<and> nextLanguageIndex i < length LANGUAGES
   \<and> (soundRef w = None \<longrightarrow>
        currentLanguageIndex (step ChangeLanguage w) = nextLanguageIndex (currentLanguageIndex w))
   \<and> (soundRef w \<noteq> None \<longrightarrow>
        currentLanguageIndex (step ChangeLanguage w) = currentLanguageIndex w
        \<and> currentLanguageIndex (step (Settle (nextId w) Resolved) (step ChangeLanguage w))
            = nextLanguageIndex (currentLanguageIndex w))
   \<and> (currentLanguageIndex w < length LANGUAGES \<longrightarrow>
        currentLanguageIndex (run es w) < length LANGUAGES)"
proof -
  have a: "nextLanguageIndex i = (i + 1) mod 6"
    by (simp add: nextLanguageIndex_def LANGUAGES_def)
  have b: "map code LANGUAGES = [asc ''english'', asc ''hindi'', asc ''bengali'',
      asc ''telugu'', asc ''tamil'', asc ''malayalam'']"
    by (simp add: LANGUAGES_def)
  have c: "(nextLanguageIndex ^^ 5) 0 = 5"
    by code_simp
  have d: "(nextLanguageIndex ^^ 6) 0 = 0"
    by code_simp
  have e: "soundRef w = None \<longrightarrow>
      currentLanguageIndex (step ChangeLanguage w) = nextLanguageIndex (currentLanguageIndex w)"
    by (simp add: ctl_defs)
  have f: "soundRef w \<noteq> None \<longrightarrow>
      currentLanguageIndex (step ChangeLanguage w) = currentLanguageIndex w
      \<and> currentLanguageIndex (step (Settle (nextId w) Resolved) (step ChangeLanguage w))
          = nextLanguageIndex (currentLanguageIndex w)"
    by (auto simp add: ctl_defs)
  have g: "currentLanguageIndex w < length LANGUAGES \<longrightarrow>
      currentLanguageIndex (run es w) < length LANGUAGES"
    using idx_run by blast
  from a b c d nextLanguageIndex_less [of i] e f g show ?thesis
    by (intro conjI)
qed

theorem language_advance_cyclic_witness:
  "soundRef demoApp = None
   \<and> currentLanguageIndex demoApp < length LANGUAGES
   \<and> currentLanguageIndex (step ChangeLanguage demoApp) = 1
   \<and> currentLanguageIndex (run [ChangeLanguage, ChangeLanguage, ChangeLanguage, ChangeLanguage,
        ChangeLanguage] demoApp) < length LANGUAGES"
proof -
  have h1: "soundRef demoApp = None" by (simp add: demoApp_def initialApp_def)
  have h2: "currentLanguageIndex demoApp < length LANGUAGES"
    by (simp add: demoApp_def initialApp_def LANGUAGES_def)
  have h3: "currentLanguageIndex demoApp = 0" by (simp add: demoApp_def initialApp_def)
  from language_advance_cyclic [of 0 demoApp "[ChangeLanguage, ChangeLanguage, ChangeLanguage,
    ChangeLanguage, ChangeLanguage]"] h1 h2 h3
  show ?thesis by simp
qed

text \<open>
  C4 (the deletion is missing on the error path and after a stop). The rendered audio of
  \<open>demoApp\<close> is written and loaded. In the first run its playback reports an error: the
  promise is rejected, the caption is handed to the synthesizer, and
  \<^verbatim>\<open>FileSystem.deleteAsync\<close> is never called. In the second run the speak button is
  pressed again while the sound plays: the sound is unloaded, the synthesizer stopped,
  the flags cleared, and again nothing deletes the file. In both runs the temporary file
  is still there at the end.
\<close>

theorem rendered_audio_error_leaves_file:
  "files (run [Press, Settle 0 Resolved, Settle 0 Resolved, Settle 0 Rejected] demoApp) = [0]
   \<and> effects (run [Press, Settle 0 Resolved, Settle 0 Resolved, Settle 0 Rejected] demoApp)
       = [WriteAsStringAsync 0 (asc ''SUQz''), CreateAsync 0,
          SpeechSpeak 0 Description (asc ''A kitchen table'') (asc ''en-US'')]
   \<and> files (run [Press, Settle 0 Resolved, Settle 0 Resolved, Press, Settle 2 Resolved] demoApp)
       = [0]
   \<and> effects (run [Press, Settle 0 Resolved, Settle 0 Resolved, Press, Settle 2 Resolved] demoApp)
       = [WriteAsStringAsync 0 (asc ''SUQz''), CreateAsync 0, UnloadAsync 1, SpeechStop]
   \<and> \<not> isPlaying
         (run [Press, Settle 0 Resolved, Settle 0 Resolved, Press, Settle 2 Resolved] demoApp)"
  by (simp add: run_def demoApp_def initialApp_def demoCaption_def ctl_defs Let_def
      currentLanguage_def LANGUAGES_def stripDataUrl_def asc_def)

text \<open>
  C2 (a stop while the rendered audio is still being written is not honoured). The first
  press starts the description of \<open>demoApp\<close>: both flags are set and the payload is being
  written. The second press takes the stop branch: there is no sound to unload yet, the
  synthesizer is stopped and the flags are cleared. The suspended call goes on all the
  same: the file is written, the sound is created and played to its end, the timer runs,
  and the safety message of that call is spoken.
\<close>

theorem stop_while_loading_still_speaks_safety:
  "isPlaying (run [Press] demoApp) \<and> isPlayingDescription (run [Press] demoApp)
   \<and> run [Press, Press] demoApp = (run [Press] demoApp)\<lparr>isPlaying := False,
        isPlayingDescription := False, isPlayingHazard := False,
        effects := effects (run [Press] demoApp) @ [SpeechStop]\<rparr>
   \<and> effects (run [Press, Press, Settle 0 Resolved, Settle 0 Resolved, Settle 0 Resolved,
         Settle 0 Resolved] demoApp)
       = [WriteAsStringAsync 0 (asc ''SUQz''), SpeechStop, CreateAsync 0, DeleteAsync 0,
          SetTimeout 1000,
          SpeechSpeak 0 Safety (asc ''No hazardous objects present in the image'')
            (asc ''en-US'')]"
  by (simp add: run_def demoApp_def initialApp_def demoCaption_def ctl_defs Let_def
      currentLanguage_def LANGUAGES_def stripDataUrl_def safetyMessage_def
      hasHazardousObjects_def translateHazardInfo_def asc_def)


section \<open>Lemmas about the text transformations\<close>

subsection \<open>Characters\<close>

lemma canon_letter_other: "isAsciiLetter p \<Longrightarrow> \<not> isAsciiLetter c \<Longrightarrow> canon p \<noteq> canon c"
  by (auto simp add: canon_def isAsciiLetter_def)

lemma canon_key_separator:
  "isAsciiLetter p \<or> p = 0x20 \<Longrightarrow> separator c \<Longrightarrow> canon p \<noteq> canon c"
  by (auto simp add: canon_def isAsciiLetter_def separator_def)




lemma inert_not_letter: "inert c \<Longrightarrow> \<not> isAsciiLetter c"
  by (auto simp add: inert_def isAsciiLetter_def)

subsection \<open>Literal patterns\<close>

lemma matchLit_drop: "matchLit q s = Some r \<Longrightarrow> r = drop (length q) s \<and> length q \<le> length s"
  by (induction q s rule: matchLit.induct) (auto split: if_splits)

lemma matchLit_shorter: "q \<noteq> [] \<Longrightarrow> matchLit q s = Some r \<Longrightarrow> length r < length s"
  by (drule matchLit_drop) (cases q; cases s; auto)

lemma matchLit_stop:
  "\<forall>p\<in>set q. canon p \<noteq> canon c \<Longrightarrow>
     matchLit q (x @ c # y) = map_option (\<lambda>r. r @ c # y) (matchLit q x)"
proof (induction q x rule: matchLit.induct)
  case (1 s)
  show ?case by simp
next
  case (2 p ps)
  then show ?case by simp
next
  case (3 p ps d ds)
  then show ?case by simp
qed

lemma matchLit_tail_None:
  "q \<noteq> [] \<Longrightarrow> isAsciiLetter (last q) \<Longrightarrow> letterFree b \<Longrightarrow> matchLit q b = None"
proof (induction q b rule: matchLit.induct)
  case (1 s)
  then show ?case by simp
next
  case (2 p ps)
  show ?case by simp
next
  case (3 p ps c cs)
  show ?case
  proof (cases "ps = []")
    case True
    with 3 have "isAsciiLetter p" "\<not> isAsciiLetter c" by (simp_all add: letterFree_def)
    then show ?thesis using canon_letter_other by simp
  next
    case False
    with 3 show ?thesis by (simp add: letterFree_def)
  qed
qed

lemma matchLit_tail:
  "q \<noteq> [] \<Longrightarrow> isAsciiLetter (last q) \<Longrightarrow> letterFree b \<Longrightarrow>
     matchLit q (x @ b) = map_option (\<lambda>r. r @ b) (matchLit q x)"
proof (induction q x rule: matchLit.induct)
  case (1 s)
  then show ?case by simp
next
  case (2 p ps)
  then show ?case using matchLit_tail_None [of "p # ps" b] by simp
next
  case (3 p ps d ds)
  show ?case
  proof (cases "ps = []")
    case True
    then show ?thesis by simp
  next
    case False
    with 3 show ?thesis by simp
  qed
qed

lemma matchLit_head_None:
  "q \<noteq> [] \<Longrightarrow> isAsciiLetter (hd q) \<Longrightarrow> \<not> isAsciiLetter c \<Longrightarrow> matchLit q (c # t) = None"
  by (cases q) (simp_all add: canon_letter_other)

lemma matchLit_Nil_None: "q \<noteq> [] \<Longrightarrow> matchLit q [] = None"
  by (cases q) simp_all

lemma matchLit_canon:
  "map canon v = map canon e \<Longrightarrow> (matchLit q v = None) = (matchLit q e = None)"
proof (induction q v arbitrary: e rule: matchLit.induct)
  case (1 s)
  show ?case by simp
next
  case (2 p ps)
  then show ?case by simp
next
  case (3 p ps c cs)
  then obtain d ds where e: "e = d # ds" by (cases e) auto
  with 3 show ?case by auto
qed

lemma matchLit_self: "map canon v = map canon e \<Longrightarrow> matchLit e v = Some []"
proof (induction e v rule: matchLit.induct)
  case (1 s)
  then show ?case by simp
next
  case (2 p ps)
  then show ?case by simp
next
  case (3 p ps c cs)
  then show ?case by simp
qed

subsection \<open>Global replacement\<close>

lemma replaceAll_Nil: "m [] = None \<Longrightarrow> replaceAll m [] = []"
  by (simp add: replaceAll.simps)

lemma replaceAll_None: "m (c # cs) = None \<Longrightarrow> replaceAll m (c # cs) = c # replaceAll m cs"
  by (simp add: replaceAll.simps)

lemma replaceAll_Some:
  "m s = Some (rep, rest) \<Longrightarrow> length rest < length s \<Longrightarrow> replaceAll m s = rep @ replaceAll m rest"
  by (simp add: replaceAll.simps [of m s])

lemma replaceAll_stopsAt:
  assumes adv: "advances m" and st: "stopsAt m z"
  shows "replaceAll m (s @ z) = replaceAll m s @ replaceAll m z"
proof (induction s rule: length_induct)
  case (1 s)
  show ?case
  proof (cases s)
    case Nil
    with adv show ?thesis by (simp add: advances_def replaceAll_Nil)
  next
    case (Cons c cs)
    show ?thesis
    proof (cases "m s")
      case None
      with st have "m (s @ z) = None" by (simp add: stopsAt_def)
      with Cons None 1 show ?thesis by (simp add: replaceAll_None)
    next
      case (Some a)
      obtain rep rest where a: "a = (rep, rest)" by (cases a)
      with Some adv have len: "length rest < length s" by (auto simp add: advances_def)
      from Some a st have mz: "m (s @ z) = Some (rep, rest @ z)" by (simp add: stopsAt_def)
      from len have "length (rest @ z) < length (s @ z)" by simp
      with mz have "replaceAll m (s @ z) = rep @ replaceAll m (rest @ z)"
        by (rule replaceAll_Some)
      moreover from 1 len have "replaceAll m (rest @ z) = replaceAll m rest @ replaceAll m z"
        by blast
      moreover from Some a len have "replaceAll m s = rep @ replaceAll m rest"
        by (simp add: replaceAll_Some)
      ultimately show ?thesis by simp
    qed
  qed
qed

lemma replaceAll_skip:
  "\<forall>c\<in>set a. \<forall>t. m (c # t) = None \<Longrightarrow> replaceAll m (a @ s) = a @ replaceAll m s"
  by (induction a) (simp_all add: replaceAll_None)

lemma replaceAll_skip_all:
  "m [] = None \<Longrightarrow> \<forall>c\<in>set a. \<forall>t. m (c # t) = None \<Longrightarrow> replaceAll m a = a"
  using replaceAll_skip [of a m "[]"] by (simp add: replaceAll_Nil)

subsection \<open>Replacement of a phrase\<close>

lemma rePhrase_advances: "q \<noteq> [] \<Longrightarrow> advances (rePhrase q l)"
  by (auto simp add: advances_def rePhrase_def replacing_def matchLit_Nil_None matchLit_shorter)

lemma rePhrase_stopsAt_separator:
  "list_all (\<lambda>p. isAsciiLetter p \<or> p = 0x20) q \<Longrightarrow> separator c \<Longrightarrow> stopsAt (rePhrase q l) (c # y)"
proof -
  assume k: "list_all (\<lambda>p. isAsciiLetter p \<or> p = 0x20) q" and s: "separator c"
  then have "\<forall>p\<in>set q. canon p \<noteq> canon c"
    by (auto simp add: list_all_iff canon_key_separator)
  then have "\<And>x. matchLit q (x @ c # y) = map_option (\<lambda>r. r @ c # y) (matchLit q x)"
    by (rule matchLit_stop)
  then show ?thesis
    by (simp add: stopsAt_def rePhrase_def replacing_def option.map_comp comp_def)
qed

lemma rePhrase_stopsAt_tail:
  "q \<noteq> [] \<Longrightarrow> isAsciiLetter (last q) \<Longrightarrow> letterFree b \<Longrightarrow> stopsAt (rePhrase q l) b"
  by (simp add: stopsAt_def rePhrase_def replacing_def matchLit_tail option.map_comp comp_def)

lemma rePhrase_head_None:
  "q \<noteq> [] \<Longrightarrow> isAsciiLetter (hd q) \<Longrightarrow> \<not> isAsciiLetter c \<Longrightarrow> rePhrase q l (c # t) = None"
  by (simp add: rePhrase_def replacing_def matchLit_head_None)

lemma replacePhrase_letterFree:
  "q \<noteq> [] \<Longrightarrow> isAsciiLetter (hd q) \<Longrightarrow> letterFree a \<Longrightarrow> replaceAll (rePhrase q l) a = a"
  by (rule replaceAll_skip_all)
     (auto simp add: rePhrase_def replacing_def matchLit_Nil_None matchLit_head_None
       letterFree_def list_all_iff)

lemma replacePhrase_context:
  assumes "q \<noteq> []" "isAsciiLetter (hd q)" "isAsciiLetter (last q)" "letterFree a" "letterFree b"
  shows "replaceAll (rePhrase q l) (a @ v @ b) = a @ replaceAll (rePhrase q l) v @ b"
proof -
  let ?m = "rePhrase q l"
  from assms have "replaceAll ?m (a @ v @ b) = a @ replaceAll ?m (v @ b)"
    by (intro replaceAll_skip) (auto simp add: rePhrase_head_None letterFree_def list_all_iff)
  moreover from assms have "replaceAll ?m (v @ b) = replaceAll ?m v @ replaceAll ?m b"
    by (intro replaceAll_stopsAt rePhrase_advances rePhrase_stopsAt_tail)
  moreover from assms have "replaceAll ?m b = b" by (simp add: replacePhrase_letterFree)
  ultimately show ?thesis by simp
qed

subsection \<open>Occurrences\<close>

lemma replacePhrase_absent: "q \<noteq> [] \<Longrightarrow> \<not> occursCI q s \<Longrightarrow> replaceAll (rePhrase q l) s = s"
  by (induction s)
     (simp_all add: replaceAll_Nil replaceAll_None rePhrase_def replacing_def matchLit_Nil_None)

lemma occursCI_canon: "map canon v = map canon e \<Longrightarrow> occursCI q v = occursCI q e"
proof (induction v arbitrary: e)
  case Nil
  then show ?case by simp
next
  case (Cons c cs)
  then obtain d ds where e: "e = d # ds" by (cases e) auto
  with Cons.prems have "map canon cs = map canon ds" by simp
  from Cons.IH [OF this] matchLit_canon [OF Cons.prems, of q] e show ?case by simp
qed



lemma replacePhrase_self:
  "q \<noteq> [] \<Longrightarrow> map canon v = map canon q \<Longrightarrow> replaceAll (rePhrase q l) v = l"
proof -
  assume q: "q \<noteq> []" and c: "map canon v = map canon q"
  from c have m: "rePhrase q l v = Some (l, [])"
    by (simp add: rePhrase_def replacing_def matchLit_self)
  from q c have "v \<noteq> []" by auto
  with m have "replaceAll (rePhrase q l) v = l @ replaceAll (rePhrase q l) []"
    by (intro replaceAll_Some) simp_all
  with q show ?thesis
    by (simp add: replaceAll_Nil rePhrase_def replacing_def matchLit_Nil_None)
qed

subsection \<open>Tables\<close>

lemma applyTable_Nil: "applyTable [] s = s"
  by (simp add: applyTable_def)

lemma applyTable_Cons: "applyTable ((q, l) # t) s = applyTable t (replaceAll (rePhrase q l) s)"
  by (simp add: applyTable_def)

lemma applyTable_append: "applyTable (t @ u) s = applyTable u (applyTable t s)"
  by (simp add: applyTable_def)

lemma translate_applyTable: "translateHazardInfo s lang = applyTable (phraseTable lang) s"
  by (simp add: translateHazardInfo_def phraseTable_def applyTable_def split: option.splits)

lemma wfEntry_key:
  "wfEntry (q, l) \<Longrightarrow> q \<noteq> [] \<and> isAsciiLetter (hd q) \<and> isAsciiLetter (last q)
     \<and> list_all (\<lambda>p. isAsciiLetter p \<or> p = 0x20) q"
  by (simp add: wfEntry_def)

lemma wfEntry_phrase:
  "wfEntry (q, l) \<Longrightarrow> l \<noteq> [] \<and> letterFree l \<and> inert (hd l) \<and> inert (last l)
     \<and> list_all (\<lambda>c. c = 0x20 \<or> inert c) l"
  by (auto simp add: wfEntry_def letterFree_def list_all_iff isAsciiLetter_def inert_def)

lemma applyTable_letterFree:
  "list_all wfEntry t \<Longrightarrow> letterFree s \<Longrightarrow> applyTable t s = s"
proof (induction t)
  case Nil
  show ?case by (simp add: applyTable_Nil)
next
  case (Cons e t)
  obtain q l where e: "e = (q, l)" by (cases e)
  with Cons.prems wfEntry_key [of q l] have "replaceAll (rePhrase q l) s = s"
    by (simp add: replacePhrase_letterFree)
  with Cons e show ?case by (simp add: applyTable_Cons)
qed

lemma applyTable_absent:
  "list_all wfEntry t \<Longrightarrow> \<forall>(q, l)\<in>set t. \<not> occursCI q s \<Longrightarrow> applyTable t s = s"
proof (induction t)
  case Nil
  show ?case by (simp add: applyTable_Nil)
next
  case (Cons e t)
  obtain q l where e: "e = (q, l)" by (cases e)
  with Cons.prems wfEntry_key [of q l] have "replaceAll (rePhrase q l) s = s"
    by (simp add: replacePhrase_absent)
  with Cons e show ?case by (simp add: applyTable_Cons)
qed

lemma applyTable_separator:
  "list_all wfEntry t \<Longrightarrow> separator c \<Longrightarrow>
     applyTable t (a @ c # b) = applyTable t a @ c # applyTable t b"
proof (induction t arbitrary: a b)
  case Nil
  show ?case by (simp add: applyTable_Nil)
next
  case (Cons e t)
  obtain q l where e: "e = (q, l)" by (cases e)
  let ?m = "rePhrase q l"
  from Cons.prems e have k: "q \<noteq> []" "list_all (\<lambda>p. isAsciiLetter p \<or> p = 0x20) q"
    using wfEntry_key [of q l] by simp_all
  from k Cons.prems have "canon (hd q) \<noteq> canon c"
    by (cases q) (simp_all add: canon_key_separator)
  with k have n: "?m (c # b) = None"
    by (cases q) (simp_all add: rePhrase_def replacing_def)
  from k Cons.prems have "replaceAll ?m (a @ c # b) = replaceAll ?m a @ replaceAll ?m (c # b)"
    by (intro replaceAll_stopsAt rePhrase_advances rePhrase_stopsAt_separator)
  with n have "replaceAll ?m (a @ c # b) = replaceAll ?m a @ c # replaceAll ?m b"
    by (simp add: replaceAll_None)
  with Cons e show ?case by (simp add: applyTable_Cons)
qed

lemma applyTable_entry:
  assumes wf: "list_all wfEntry t" and look: "map_of t e = Some l" and ns: "notShadowed t e"
    and v: "map canon v = map canon e" and a: "letterFree a" and b: "letterFree b"
  shows "applyTable t (a @ v @ b) = a @ l @ b"
  using wf look ns
proof (induction t)
  case Nil
  then show ?case by simp
next
  case (Cons x t)
  obtain q lq where x: "x = (q, lq)" by (cases x)
  from Cons.prems x have k: "q \<noteq> []" "isAsciiLetter (hd q)" "isAsciiLetter (last q)"
    and p: "letterFree lq" and wft: "list_all wfEntry t"
    using wfEntry_key [of q lq] wfEntry_phrase [of q lq] by simp_all
  from k a b have ctx: "replaceAll (rePhrase q lq) (a @ v @ b) = a @ replaceAll (rePhrase q lq) v @ b"
    by (rule replacePhrase_context)
  show ?case
  proof (cases "q = e")
    case True
    with Cons.prems x have "lq = l" by simp
    with True k v ctx have "replaceAll (rePhrase q lq) (a @ v @ b) = a @ l @ b"
      by (simp add: replacePhrase_self)
    moreover from a b p \<open>lq = l\<close> have "letterFree (a @ l @ b)" by (simp add: letterFree_def)
    ultimately show ?thesis using wft x by (simp add: applyTable_Cons applyTable_letterFree)
  next
    case False
    with Cons.prems x have n: "\<not> occursCI q e" and l': "map_of t e = Some l" and ns': "notShadowed t e"
      by auto
    from n occursCI_canon [OF v, of q] have "\<not> occursCI q v" by simp
    with k ctx have "replaceAll (rePhrase q lq) (a @ v @ b) = a @ v @ b"
      by (simp add: replacePhrase_absent)
    with Cons.IH [OF wft l' ns'] x show ?thesis by (simp add: applyTable_Cons)
  qed
qed

subsection \<open>The five tables\<close>

lemmas char_defs = asc_def isAsciiLetter_def isSpace_def inert_def canon_def

lemma wf_hindi: "list_all wfEntry hindi_translations"
  by (simp add: hindi_translations_def wfEntry_def char_defs)

lemma wf_bengali: "list_all wfEntry bengali_translations"
  by (simp add: bengali_translations_def wfEntry_def char_defs)

lemma wf_telugu: "list_all wfEntry telugu_translations"
  by (simp add: telugu_translations_def wfEntry_def char_defs)

lemma wf_tamil: "list_all wfEntry tamil_translations"
  by (simp add: tamil_translations_def wfEntry_def char_defs)

lemma wf_malayalam: "list_all wfEntry malayalam_translations"
  by (simp add: malayalam_translations_def wfEntry_def char_defs)

lemma phraseTable_cases:
  "phraseTable lang = [] \<or> phraseTable lang = hindi_translations
   \<or> phraseTable lang = bengali_translations \<or> phraseTable lang = telugu_translations
   \<or> phraseTable lang = tamil_translations \<or> phraseTable lang = malayalam_translations"
  by (simp add: phraseTable_def translationTable_def)

lemma wf_phraseTable: "list_all wfEntry (phraseTable lang)"
  using phraseTable_cases [of lang] wf_hindi wf_bengali wf_telugu wf_tamil wf_malayalam
  by auto

lemma notShadowed_keys: "map fst t = map fst u \<Longrightarrow> notShadowed t e = notShadowed u e"
proof (induction t arbitrary: u)
  case Nil
  then show ?case by simp
next
  case (Cons x t)
  then obtain y u' where u: "u = y # u'" by (cases u) auto
  obtain q l where x: "x = (q, l)" by (cases x)
  obtain q' l' where y: "y = (q', l')" by (cases y)
  from Cons.prems u x y have "q' = q" "map fst t = map fst u'" by simp_all
  with Cons.IH [of u'] u x y show ?case by simp
qed

lemma keys_hindi: "map fst hindi_translations = [asc ''Safety alert'',
    asc ''No hazardous objects present in the image'', asc ''detected'', asc ''close'',
    asc ''very close'', asc ''medium distance'', asc ''far'', asc ''left'', asc ''center'',
    asc ''right'', asc ''Scissors'', asc ''Knife'']"
  by (simp add: hindi_translations_def)

lemma keys_bengali: "map fst bengali_translations = map fst hindi_translations"
  by (simp add: hindi_translations_def bengali_translations_def)

lemma keys_telugu: "map fst telugu_translations = map fst hindi_translations"
  by (simp add: hindi_translations_def telugu_translations_def)

lemma keys_tamil: "map fst tamil_translations = map fst hindi_translations"
  by (simp add: hindi_translations_def tamil_translations_def)

lemma keys_malayalam: "map fst malayalam_translations = map fst hindi_translations"
  by (simp add: hindi_translations_def malayalam_translations_def)

lemma hindi_notShadowed:
  "list_all (\<lambda>q. q = asc ''very close'' \<or> notShadowed hindi_translations q)
     (map fst hindi_translations)"
  by (simp add: hindi_translations_def asc_def canon_def)

lemma phraseTable_notShadowed:
  assumes "map_of (phraseTable lang) e = Some l" and "e \<noteq> asc ''very close''"
  shows "notShadowed (phraseTable lang) e"
proof -
  from assms(1) have "phraseTable lang \<noteq> []" by auto
  with phraseTable_cases [of lang] keys_bengali keys_telugu keys_tamil keys_malayalam
  have k: "map fst (phraseTable lang) = map fst hindi_translations" by auto
  from assms(1) have "(e, l) \<in> set (phraseTable lang)" by (rule map_of_SomeD)
  then have "e \<in> set (map fst (phraseTable lang))" by force
  with k have "e \<in> set (map fst hindi_translations)" by simp
  with hindi_notShadowed assms(2) have "notShadowed hindi_translations e"
    by (auto simp add: list_all_iff)
  with notShadowed_keys [OF k, of e] show ?thesis by simp
qed

subsection \<open>A second translation changes nothing\<close>











subsection \<open>Matchers that cannot touch a localized phrase\<close>































subsection \<open>A localized phrase survives\<close>


















lemmas re_defs = reHeader_def reNumbering_def reConfidence_def reParens_def replacing_def
  rePhrase_def digits1_def expectChar_def optChar_def isDigit_def isSpace_def canon_def

lemma noHazard_key: "asc ''No hazardous objects present in the image'' \<noteq> asc ''very close''"
  by (simp add: asc_def)

lemma safetyMessage_no_hazard:
  "\<not> hasHazardousObjects h \<Longrightarrow> safetyMessage h = asc ''No hazardous objects present in the image''"
  by (simp add: safetyMessage_def)

lemma translate_key:
  assumes "map_of (phraseTable lang) e = Some l" and "e \<noteq> asc ''very close''"
  shows "translateHazardInfo e lang = l"
proof -
  from assms have ns: "notShadowed (phraseTable lang) e" by (rule phraseTable_notShadowed)
  have "applyTable (phraseTable lang) ([] @ e @ []) = [] @ l @ []"
    by (rule applyTable_entry [OF wf_phraseTable assms(1) ns]) (simp_all add: letterFree_def)
  then show ?thesis by (simp add: translate_applyTable)
qed

lemma noHazard_in_tables:
  "map_of hindi_translations (asc ''No hazardous objects present in the image'') \<noteq> None"
  "map_of bengali_translations (asc ''No hazardous objects present in the image'') \<noteq> None"
  "map_of telugu_translations (asc ''No hazardous objects present in the image'') \<noteq> None"
  "map_of tamil_translations (asc ''No hazardous objects present in the image'') \<noteq> None"
  "map_of malayalam_translations (asc ''No hazardous objects present in the image'') \<noteq> None"
  by (simp_all add: hindi_translations_def bengali_translations_def telugu_translations_def
      tamil_translations_def malayalam_translations_def asc_def)

lemma translate_noHazard:
  "translateHazardInfo (asc ''No hazardous objects present in the image'') lang
     = noHazardBoilerplate lang"
proof (cases "map_of (phraseTable lang) (asc ''No hazardous objects present in the image'')")
  case None
  with phraseTable_cases [of lang] noHazard_in_tables have "phraseTable lang = []" by auto
  with None show ?thesis
    by (simp add: translate_applyTable applyTable_Nil noHazardBoilerplate_def)
next
  case (Some l)
  from translate_key [OF Some noHazard_key] Some show ?thesis
    by (simp add: noHazardBoilerplate_def)
qed

lemma colon_separator: "separator 0x3A"
  by (simp add: separator_def isAsciiLetter_def)

lemma fallback_split:
  "asc ''Safety alert: Hazardous objects detected in the image''
     = asc ''Safety alert'' @ 0x3A # asc '' Hazardous objects detected in the image''"
  by (simp add: asc_def)

lemma fallback_has_colon:
  "0x3A \<in> set (translateHazardInfo
      (asc ''Safety alert: Hazardous objects detected in the image'') lang)"
  by (simp add: fallback_split translate_applyTable
      applyTable_separator [OF wf_phraseTable colon_separator])

lemma boilerplate_no_colon: "0x3A \<notin> set (noHazardBoilerplate lang)"
proof (cases "map_of (phraseTable lang) (asc ''No hazardous objects present in the image'')")
  case None
  then show ?thesis by (simp add: noHazardBoilerplate_def asc_def)
next
  case (Some l)
  then have "(asc ''No hazardous objects present in the image'', l) \<in> set (phraseTable lang)"
    by (rule map_of_SomeD)
  with wf_phraseTable [of lang]
  have "wfEntry (asc ''No hazardous objects present in the image'', l)"
    by (auto simp add: list_all_iff)
  then have "list_all (\<lambda>c. c = 0x20 \<or> inert c) l" by (simp add: wfEntry_def)
  then have "0x3A \<notin> set l" by (auto simp add: list_all_iff inert_def)
  with Some show ?thesis by (simp add: noHazardBoilerplate_def)
qed

lemma safetyMessage_nonempty: "safetyMessage h \<noteq> []"
  by (simp add: safetyMessage_def cleanHazardText_def Let_def asc_def)

lemma speakSafety_effects:
  "effects (speakSafety k cap lang h w)
     = effects w @ [SpeechSpeak k Safety (translatedSafetyMessage h lang) (voice lang)]"
  using safetyMessage_nonempty [of h]
  by (simp add: speakSafety_def Let_def translatedSafetyMessage_def ctl_defs)

lemma hindi_boilerplate:
  "noHazardBoilerplate hindi =
     [0x91B, 0x935, 0x93F, 0x20, 0x92E, 0x947, 0x902, 0x20, 0x915, 0x94B, 0x908, 0x20, 0x916,
      0x924, 0x930, 0x928, 0x93E, 0x915, 0x20, 0x935, 0x938, 0x94D, 0x924, 0x941, 0x20, 0x92E,
      0x94C, 0x91C, 0x942, 0x926, 0x20, 0x928, 0x939, 0x940, 0x902, 0x20, 0x939, 0x948]"
  by (simp add: noHazardBoilerplate_def phraseTable_def translationTable_def LANGUAGES_def
      hindi_def hindi_translations_def asc_def)


lemma hindi_table: "phraseTable hindi = hindi_translations"
  by (simp add: phraseTable_def translationTable_def LANGUAGES_def hindi_def asc_def)


lemma hindi_knife_lookup:
  "map_of (phraseTable hindi) (asc ''Knife'') = Some [0x91A, 0x93E, 0x915, 0x942]"
  by (simp add: hindi_table hindi_translations_def asc_def)

lemma hindi_absent_cup:
  "\<forall>(q, l)\<in>set (phraseTable hindi). \<not> occursCI q (asc ''a cup'')"
  by (simp add: hindi_table hindi_translations_def asc_def canon_def)

lemma scenario_header:
  "replaceFirst (replacing reHeader (asc ''Safety alert: '')) scenarioReport
     = asc ''Safety alert: 1. Knife - 0.91 (close, left)'' @ [0xA]
       @ asc ''2. Scissors - 0.77 (far, right)''"
  by (simp add: scenarioReport_def asc_def re_defs)

lemma scenario_numbering:
  "replaceAll (replacing reNumbering []) (asc ''Safety alert: 1. Knife - 0.91 (close, left)''
       @ [0xA] @ asc ''2. Scissors - 0.77 (far, right)'')
     = asc ''Safety alert: Knife - 91 (close, left)'' @ [0xA] @ asc ''Scissors - 77 (far, right)''"
  by (simp add: asc_def re_defs replaceAll.simps)

lemma scenario_confidence:
  "replaceAll (replacing reConfidence []) (asc ''Safety alert: Knife - 91 (close, left)''
       @ [0xA] @ asc ''Scissors - 77 (far, right)'')
     = asc ''Safety alert: Knife - 91 (close, left)'' @ [0xA] @ asc ''Scissors - 77 (far, right)''"
  by (simp add: asc_def re_defs replaceAll.simps)

lemma scenario_parens:
  "replaceAll reParens (asc ''Safety alert: Knife - 91 (close, left)''
       @ [0xA] @ asc ''Scissors - 77 (far, right)'')
     = asc ''Safety alert: Knife - 91 close, left'' @ [0xA] @ asc ''Scissors - 77 far, right''"
  by (simp add: asc_def re_defs replaceAll.simps)

lemma scenario_trim:
  "trim (asc ''Safety alert: Knife - 91 close, left'' @ [0xA] @ asc ''Scissors - 77 far, right'')
     = asc ''Safety alert: Knife - 91 close, left'' @ [0xA] @ asc ''Scissors - 77 far, right''"
  by (simp add: trim_def asc_def isSpace_def)

lemma scenario_clean:
  "cleanHazardText (Some scenarioReport)
     = asc ''Safety alert: Knife - 91 close, left'' @ [0xA] @ asc ''Scissors - 77 far, right''"
  unfolding cleanHazardText_def Let_def option.case scenario_header scenario_numbering
    scenario_confidence scenario_parens scenario_trim
  by (simp add: asc_def)

lemma scenario_hazardous: "hasHazardousObjects (Some scenarioReport)"
  by (simp add: hasHazardousObjects_def scenarioReport_def toLowerCase_def lowerUnit_def asc_def)

lemma scenario_translate:
  "translateHazardInfo
     (asc ''Safety alert: Knife - 91 close, left'' @ [0xA] @ asc ''Scissors - 77 far, right'')
     hindi
   = [0x938, 0x941, 0x930, 0x915, 0x94D, 0x937, 0x93E, 0x20, 0x91A, 0x947, 0x924, 0x93E, 0x935,
      0x928, 0x940] @ asc '': '' @ [0x91A, 0x93E, 0x915, 0x942] @ asc '' - 91 ''
     @ [0x92A, 0x93E, 0x938] @ asc '', '' @ [0x92C, 0x93E, 0x90F, 0x902] @ [0xA]
     @ [0x915, 0x948, 0x902, 0x91A, 0x940] @ asc '' - 77 '' @ [0x926, 0x942, 0x930]
     @ asc '', '' @ [0x926, 0x93E, 0x90F, 0x902]"
  by (simp add: hindi_table translate_applyTable applyTable_def hindi_translations_def
      replaceAll.simps re_defs asc_def)

section \<open>Properties of the hazard-text processing\<close>

text \<open>
  C1, as stated, fails: the clean-up of the scenario's report does not give
  "Safety alert: Knife close, left Scissors far, right". The two items stay on separate
  lines, and the confidence scores are not removed: the numbering expression
  \<^verbatim>\<open>/\d+\.\s*/g\<close> runs first and takes the "0." out of "0.91" and "0.77", after
  which the confidence expression finds nothing to match.
\<close>

theorem scenario_normalized_counterexample:
  "cleanHazardText (Some scenarioReport)
     \<noteq> asc ''Safety alert: Knife close, left Scissors far, right''"
  by (simp add: scenario_clean asc_def)

text \<open>
  C1, amended. The report of the scenario is recognised as a hazard report. Its clean-up
  replaces the header by "Safety alert: ", removes the numbering "1. " and "2. ",
  unwraps the parentheses and keeps the line break between the two items; between each
  object name and its qualifiers it leaves some text \<open>r1\<close>, \<open>r2\<close> of spaces, dashes
  and digits. The Hindi translation replaces "Safety alert", "Knife", "close", "left",
  "Scissors", "far" and "right" by their localized phrases and keeps everything else,
  \<open>r1\<close> and \<open>r2\<close> included.
\<close>

theorem scenario_hindi:
  "hasHazardousObjects (Some scenarioReport)
   \<and> (\<exists>r1 r2. confidenceResidue r1 \<and> confidenceResidue r2
        \<and> cleanHazardText (Some scenarioReport)
            = asc ''Safety alert: Knife'' @ r1 @ asc ''close, left'' @ [0xA]
              @ asc ''Scissors'' @ r2 @ asc ''far, right''
        \<and> translatedSafetyMessage (Some scenarioReport) hindi
            = [0x938, 0x941, 0x930, 0x915, 0x94D, 0x937, 0x93E, 0x20, 0x91A, 0x947, 0x924,
               0x93E, 0x935, 0x928, 0x940] @ asc '': '' @ [0x91A, 0x93E, 0x915, 0x942] @ r1
              @ [0x92A, 0x93E, 0x938] @ asc '', '' @ [0x92C, 0x93E, 0x90F, 0x902] @ [0xA]
              @ [0x915, 0x948, 0x902, 0x91A, 0x940] @ r2 @ [0x926, 0x942, 0x930]
              @ asc '', '' @ [0x926, 0x93E, 0x90F, 0x902])"
proof -
  have r: "confidenceResidue (asc '' - 91 '')" "confidenceResidue (asc '' - 77 '')"
    by (simp_all add: confidenceResidue_def asc_def isDigit_def)
  have c: "cleanHazardText (Some scenarioReport)
      = asc ''Safety alert: Knife'' @ asc '' - 91 '' @ asc ''close, left'' @ [0xA]
        @ asc ''Scissors'' @ asc '' - 77 '' @ asc ''far, right''"
    by (simp add: scenario_clean asc_def)
  have t: "translatedSafetyMessage (Some scenarioReport) hindi
      = [0x938, 0x941, 0x930, 0x915, 0x94D, 0x937, 0x93E, 0x20, 0x91A, 0x947, 0x924,
         0x93E, 0x935, 0x928, 0x940] @ asc '': '' @ [0x91A, 0x93E, 0x915, 0x942] @ asc '' - 91 ''
        @ [0x92A, 0x93E, 0x938] @ asc '', '' @ [0x92C, 0x93E, 0x90F, 0x902] @ [0xA]
        @ [0x915, 0x948, 0x902, 0x91A, 0x940] @ asc '' - 77 '' @ [0x926, 0x942, 0x930]
        @ asc '', '' @ [0x926, 0x93E, 0x90F, 0x902]"
    by (simp only: translatedSafetyMessage_def safetyMessage_def scenario_hazardous if_True
        scenario_clean scenario_translate)
  from r c t have "\<exists>r1 r2. confidenceResidue r1 \<and> confidenceResidue r2
        \<and> cleanHazardText (Some scenarioReport)
            = asc ''Safety alert: Knife'' @ r1 @ asc ''close, left'' @ [0xA]
              @ asc ''Scissors'' @ r2 @ asc ''far, right''
        \<and> translatedSafetyMessage (Some scenarioReport) hindi
            = [0x938, 0x941, 0x930, 0x915, 0x94D, 0x937, 0x93E, 0x20, 0x91A, 0x947, 0x924,
               0x93E, 0x935, 0x928, 0x940] @ asc '': '' @ [0x91A, 0x93E, 0x915, 0x942] @ r1
              @ [0x92A, 0x93E, 0x938] @ asc '', '' @ [0x92C, 0x93E, 0x90F, 0x902] @ [0xA]
              @ [0x915, 0x948, 0x902, 0x91A, 0x940] @ r2 @ [0x926, 0x942, 0x930]
              @ asc '', '' @ [0x926, 0x93E, 0x90F, 0x902]"
    by blast
  with scenario_hazardous show ?thesis by (intro conjI)
qed

text \<open>
  C5, as stated, fails: matching is by substring, not by whole phrase. "leftover" is no
  phrase of the Hindi table, yet its translation is not "leftover": the key "left" is
  replaced inside the word.
\<close>

theorem translate_substring_counterexample:
  "map_of (phraseTable hindi) (asc ''leftover'') = None
   \<and> translateHazardInfo (asc ''leftover'') hindi
       = [0x92C, 0x93E, 0x90F, 0x902] @ asc ''over''
   \<and> translateHazardInfo (asc ''leftover'') hindi \<noteq> asc ''leftover''"
  by (simp add: hindi_table translate_applyTable applyTable_def hindi_translations_def
      replaceAll.simps re_defs asc_def)

text \<open>
  C5, amended. For every language and text: the English translation is the identity; a
  text in which no key of the language's table occurs (compared without regard to
  letter case, at any position) is returned unchanged; the translation of a text splits
  at every character that is neither an ASCII letter nor a space, the parts being
  translated on their own; and a key of the table other than "very close", in any
  letter case, standing between two texts without ASCII letters, is replaced by its
  localized phrase while the texts around it are kept.
\<close>

theorem translate_substring_semantics:
  "(code lang = asc ''english'' \<longrightarrow> translateHazardInfo s lang = s)
   \<and> ((\<forall>(q, l)\<in>set (phraseTable lang). \<not> occursCI q s) \<longrightarrow> translateHazardInfo s lang = s)
   \<and> (separator c \<longrightarrow>
        translateHazardInfo (a @ c # b) lang
          = translateHazardInfo a lang @ c # translateHazardInfo b lang)
   \<and> (map_of (phraseTable lang) e = Some l \<and> e \<noteq> asc ''very close''
        \<and> map canon v = map canon e \<and> letterFree x \<and> letterFree y \<longrightarrow>
        translateHazardInfo (x @ v @ y) lang = x @ l @ y)"
proof (intro conjI impI)
  assume "code lang = asc ''english''"
  then show "translateHazardInfo s lang = s" by (simp add: translateHazardInfo_def)
next
  assume "\<forall>(q, l)\<in>set (phraseTable lang). \<not> occursCI q s"
  with wf_phraseTable [of lang] show "translateHazardInfo s lang = s"
    by (simp add: translate_applyTable applyTable_absent)
next
  assume "separator c"
  with wf_phraseTable [of lang]
  show "translateHazardInfo (a @ c # b) lang
          = translateHazardInfo a lang @ c # translateHazardInfo b lang"
    by (simp add: translate_applyTable applyTable_separator)
next
  assume h: "map_of (phraseTable lang) e = Some l \<and> e \<noteq> asc ''very close''
        \<and> map canon v = map canon e \<and> letterFree x \<and> letterFree y"
  then have h1: "map_of (phraseTable lang) e = Some l" and h2: "e \<noteq> asc ''very close''"
    by simp_all
  from h1 h2 have ns: "notShadowed (phraseTable lang) e" by (rule phraseTable_notShadowed)
  from h have h3: "map canon v = map canon e" and h4: "letterFree x" and h5: "letterFree y"
    by simp_all
  have "applyTable (phraseTable lang) (x @ v @ y) = x @ l @ y"
    by (rule applyTable_entry [OF wf_phraseTable h1 ns h3 h4 h5])
  then show "translateHazardInfo (x @ v @ y) lang = x @ l @ y"
    by (simp add: translate_applyTable)
qed

theorem translate_substring_semantics_witness:
  "code english = asc ''english''
   \<and> translateHazardInfo (asc ''Knife close'') english = asc ''Knife close''
   \<and> translateHazardInfo (asc ''a cup'') hindi = asc ''a cup''
   \<and> separator 0x2C
   \<and> translateHazardInfo (asc ''close'' @ 0x2C # asc '' left'') hindi
       = translateHazardInfo (asc ''close'') hindi @ 0x2C
           # translateHazardInfo (asc '' left'') hindi
   \<and> map_of (phraseTable hindi) (asc ''Knife'') = Some [0x91A, 0x93E, 0x915, 0x942]
   \<and> asc ''Knife'' \<noteq> asc ''very close''
   \<and> map canon (asc ''KNIFE'') = map canon (asc ''Knife'')
   \<and> letterFree (asc '': '') \<and> letterFree (asc '' - 91 '')
   \<and> translateHazardInfo (asc '': '' @ asc ''KNIFE'' @ asc '' - 91 '') hindi
       = asc '': '' @ [0x91A, 0x93E, 0x915, 0x942] @ asc '' - 91 ''"
proof -
  have e: "code english = asc ''english''" by (simp add: LANGUAGES_def english_def)
  have s: "separator 0x2C" by (simp add: separator_def isAsciiLetter_def)
  have k: "asc ''Knife'' \<noteq> asc ''very close''"
    "map canon (asc ''KNIFE'') = map canon (asc ''Knife'')"
    "letterFree (asc '': '')" "letterFree (asc '' - 91 '')"
    by (simp_all add: asc_def canon_def letterFree_def isAsciiLetter_def)
  from translate_substring_semantics [of english "asc ''Knife close''"] e
  have 1: "translateHazardInfo (asc ''Knife close'') english = asc ''Knife close''"
    by blast
  from translate_substring_semantics [of hindi "asc ''a cup''" "0x2C" "asc ''close''"
      "asc '' left''" "asc ''Knife''" "[0x91A, 0x93E, 0x915, 0x942]" "asc ''KNIFE''"
      "asc '': ''" "asc '' - 91 ''"] hindi_absent_cup s hindi_knife_lookup k
  have 2: "translateHazardInfo (asc ''a cup'') hindi = asc ''a cup''"
    and 3: "translateHazardInfo (asc ''close'' @ 0x2C # asc '' left'') hindi
       = translateHazardInfo (asc ''close'') hindi @ 0x2C
           # translateHazardInfo (asc '' left'') hindi"
    and 4: "translateHazardInfo (asc '': '' @ asc ''KNIFE'' @ asc '' - 91 '') hindi
       = asc '': '' @ [0x91A, 0x93E, 0x915, 0x942] @ asc '' - 91 ''"
    by blast+
  from e 1 2 s 3 hindi_knife_lookup k 4 show ?thesis by (intro conjI)
qed

text \<open>
  C6. When the hazard text is absent, empty, or does not count as a report of hazardous
  objects (it lacks "detected", or contains "no objects detected"), the translated
  safety message is the language's rendering of "No hazardous objects present in the
  image" as a whole; it differs from the translation of the fixed sentence used for an
  empty clean-up; and it is what the second phase hands to the synthesizer.
\<close>

theorem no_hazard_boilerplate:
  assumes "\<not> hasHazardousObjects h"
  shows "translatedSafetyMessage h lang = noHazardBoilerplate lang
       \<and> noHazardBoilerplate lang \<noteq> translateHazardInfo
            (asc ''Safety alert: Hazardous objects detected in the image'') lang
       \<and> effects (speakSafety k cap lang h w)
            = effects w @ [SpeechSpeak k Safety (noHazardBoilerplate lang) (voice lang)]"
proof -
  from assms have a: "translatedSafetyMessage h lang = noHazardBoilerplate lang"
    by (simp add: translatedSafetyMessage_def safetyMessage_no_hazard translate_noHazard)
  from fallback_has_colon [of lang] boilerplate_no_colon [of lang]
  have b: "noHazardBoilerplate lang \<noteq> translateHazardInfo
      (asc ''Safety alert: Hazardous objects detected in the image'') lang"
    by auto
  from a speakSafety_effects [of k cap lang h w]
  have c: "effects (speakSafety k cap lang h w)
      = effects w @ [SpeechSpeak k Safety (noHazardBoilerplate lang) (voice lang)]"
    by simp
  from a b c show ?thesis by (intro conjI)
qed

theorem no_hazard_boilerplate_witness:
  "\<not> hasHazardousObjects None
   \<and> \<not> hasHazardousObjects (Some (asc ''No hazard information available''))
   \<and> \<not> hasHazardousObjects (Some (asc ''No objects detected''))
   \<and> translatedSafetyMessage (Some (asc ''No objects detected'')) hindi =
     [0x91B, 0x935, 0x93F, 0x20, 0x92E, 0x947, 0x902, 0x20, 0x915, 0x94B, 0x908, 0x20, 0x916,
      0x924, 0x930, 0x928, 0x93E, 0x915, 0x20, 0x935, 0x938, 0x94D, 0x924, 0x941, 0x20, 0x92E,
      0x94C, 0x91C, 0x942, 0x926, 0x20, 0x928, 0x939, 0x940, 0x902, 0x20, 0x939, 0x948]"
proof -
  have n: "\<not> hasHazardousObjects None"
    "\<not> hasHazardousObjects (Some (asc ''No hazard information available''))"
    by (simp_all add: hasHazardousObjects_def toLowerCase_def lowerUnit_def asc_def)
  have h: "\<not> hasHazardousObjects (Some (asc ''No objects detected''))"
    by (simp add: hasHazardousObjects_def toLowerCase_def lowerUnit_def asc_def)
  from no_hazard_boilerplate [OF h, of hindi] hindi_boilerplate n h
  show ?thesis by simp
qed



end
